theory Spec2Isabelle
  imports Main "HOL-Library.AList" "HOL-Library.Sublist"
begin

section \<open>Exclusion patterns of the sync handler (module server/sync, in src/server/connect.ts)\<close>

text \<open>
  A thrown JavaScript \<^verbatim>\<open>Error\<close> is a value carrying its message.
\<close>

datatype exn = Exn string

subsection \<open>The string rewriting of \<^verbatim>\<open>globToRegex\<close>\<close>

text \<open>
  \<^verbatim>\<open>glob.replace(/[.+^${}()|[\]\\]/g, '\\$&').replace(/\*/g, '.*').replace(/\?/g, '.')\<close>:
  three global replacements, each rewriting every character on its own. The
  backslash is written \<open>CHR 0x5C\<close>.
\<close>

definition metachars :: "char list" where
  "metachars = ''.+^${}()|[]'' @ [CHR 0x5C]"

definition escapeMeta :: "string \<Rightarrow> string" where
  "escapeMeta glob = concat (map (\<lambda>c. if c \<in> set metachars then [CHR 0x5C, c] else [c]) glob)"

definition replaceStar :: "string \<Rightarrow> string" where
  "replaceStar s = concat (map (\<lambda>c. if c = CHR ''*'' then ''.*'' else [c]) s)"

definition replaceQuestion :: "string \<Rightarrow> string" where
  "replaceQuestion s = concat (map (\<lambda>c. if c = CHR ''?'' then ''.'' else [c]) s)"

definition regexSource :: "string \<Rightarrow> string" where
  "regexSource glob = ''^'' @ replaceQuestion (replaceStar (escapeMeta glob)) @ ''$''"

subsection \<open>The fragment of JavaScript regular expressions that is reached\<close>

text \<open>
  \<^verbatim>\<open>new RegExp(src, 'i')\<close> is modelled on the fragment the rewriting can produce:
  a start anchor, then atoms (a literal character, an escaped syntax character, or the
  dot), each optionally followed by one star, then the end anchor. A source string outside
  the fragment is reported as a thrown error, as a SyntaxError of the constructor would be.
  Without the \<^verbatim>\<open>s\<close> flag the dot matches every character except a line
  terminator; with the \<^verbatim>\<open>i\<close> flag characters are compared after
  canonicalisation to upper case (modelled on the ASCII letters).
\<close>

datatype tok = TStart | TEnd | TDot | TStar | TLit char

datatype atom = AnyChar | Lit char

datatype item = One atom | Star atom

type_synonym regexp = "item list"

definition syntaxChars :: "char list" where
  "syntaxChars = ''^$.*+?()[]{}|'' @ [CHR 0x5C]"

fun tokens :: "string \<Rightarrow> tok list option" where
  "tokens [] = Some []"
| "tokens (c # cs) =
    (if c = CHR 0x5C then
       (case cs of
          [] \<Rightarrow> None
        | d # ds \<Rightarrow> if d \<in> set syntaxChars then map_option (Cons (TLit d)) (tokens ds) else None)
     else if c = CHR ''^'' then map_option (Cons TStart) (tokens cs)
     else if c = CHR ''$'' then map_option (Cons TEnd) (tokens cs)
     else if c = CHR ''.'' then map_option (Cons TDot) (tokens cs)
     else if c = CHR ''*'' then map_option (Cons TStar) (tokens cs)
     else if c \<in> set syntaxChars then None
     else map_option (Cons (TLit c)) (tokens cs))"

fun items :: "tok list \<Rightarrow> item list option" where
  "items [TEnd] = Some []"
| "items (TLit c # TStar # ts) = map_option (Cons (Star (Lit c))) (items ts)"
| "items (TDot # TStar # ts) = map_option (Cons (Star AnyChar)) (items ts)"
| "items (TLit c # ts) = map_option (Cons (One (Lit c))) (items ts)"
| "items (TDot # ts) = map_option (Cons (One AnyChar)) (items ts)"
| "items _ = None"

definition newRegExp :: "string \<Rightarrow> exn + regexp" where
  "newRegExp src =
     (case tokens src of
        Some (TStart # ts) \<Rightarrow>
          (case items ts of Some r \<Rightarrow> Inr r | None \<Rightarrow> Inl (Exn ''Invalid regular expression''))
      | _ \<Rightarrow> Inl (Exn ''Invalid regular expression''))"

definition globToRegex :: "string \<Rightarrow> exn + regexp" where
  "globToRegex glob = newRegExp (regexSource glob)"

definition lineTerminator :: "char \<Rightarrow> bool" where
  "lineTerminator c = (c = CHR 0x0A \<or> c = CHR 0x0D)"

definition canonicalize :: "char \<Rightarrow> char" where
  "canonicalize c =
     (case map_of (zip ''abcdefghijklmnopqrstuvwxyz'' ''ABCDEFGHIJKLMNOPQRSTUVWXYZ'') c of
        Some u \<Rightarrow> u
      | None \<Rightarrow> c)"

fun atom_ok :: "atom \<Rightarrow> char \<Rightarrow> bool" where
  "atom_ok AnyChar x = (\<not> lineTerminator x)"
| "atom_ok (Lit c) x = (canonicalize x = canonicalize c)"

fun matches :: "regexp \<Rightarrow> string \<Rightarrow> bool" where
  "matches [] s = (s = [])"
| "matches (One a # r) s = (case s of [] \<Rightarrow> False | x # xs \<Rightarrow> atom_ok a x \<and> matches r xs)"
| "matches (Star a # r) s =
     (matches r s \<or> (case s of [] \<Rightarrow> False | x # xs \<Rightarrow> atom_ok a x \<and> matches (Star a # r) xs))"

definition regexTest :: "regexp \<Rightarrow> string \<Rightarrow> bool" where
  "regexTest r filename = matches r filename"

text \<open>
  \<^verbatim>\<open>shouldExclude\<close>: the first pattern whose expression matches the whole name
  decides; an error thrown by the constructor leaves the loop.
\<close>

fun shouldExclude :: "string \<Rightarrow> string list \<Rightarrow> exn + bool" where
  "shouldExclude filename [] = Inr False"
| "shouldExclude filename (pattern # patterns) =
     (case globToRegex pattern of
        Inl e \<Rightarrow> Inl e
      | Inr regex \<Rightarrow> if regexTest regex filename then Inr True else shouldExclude filename patterns)"

section \<open>The host's server API (server/types.ts)\<close>

subsection \<open>Stored values, requests and responses\<close>

record sync_result =
  success :: bool
  synced :: nat
  uploaded :: nat
  downloaded :: nat
  errors :: nat
  errorMessages :: "string list"

record config =
  syncDirection :: "string option"
  excludePatterns :: "string list option"

text \<open>
  What the handlers keep in \<^verbatim>\<open>api.storage\<close>: booleans, numbers (epoch
  milliseconds), strings, ISO timestamps (kept as the instant they render), the state
  record \<^verbatim>\<open>{createdAt, userId}\<close>, the client's configuration and the last
  sync result.
\<close>

datatype sval =
    VBool bool
  | VNum int
  | VStr string
  | VDate int
  | VState int "string option"
  | VConfig config
  | VResult sync_result

text \<open>
  The calls to \<^verbatim>\<open>api.http.fetch\<close>, one constructor for each endpoint
  with the values the handler puts into the URL, the form body or the bearer header.
\<close>

datatype http_request =
    TokenExchange string string string string
  | TokenRefresh string string string
  | UserInfo string
  | ListFiles string
  | AboutQuota string
  | Revoke string

datatype 'a body = Unreadable | NotJson | JsonBody 'a

datatype 'a fetch_result = NetworkError string | Response bool "'a body"

record token_json =
  access_token :: string
  refresh_token :: "string option"
  expires_in :: int

record userinfo_json =
  email :: string
  name :: string
  picture :: "string option"

record drive_file =
  file_id :: string
  file_name :: string
  mimeType :: string
  modifiedTime :: string
  file_size :: "string option"

record storage_quota =
  usage :: "string option"
  limit :: "string option"

datatype host_op =
    StorageGet string
  | StorageSet string
  | StorageDelete string
  | StorageList string
  | SecretsGet string
  | SecretsSet string
  | SecretsDelete string

text \<open>
  Everything a handler run reads from outside: the clock, the request, the random state
  token, which host operations reject, and what each remote endpoint answers. One run
  reads one clock value: every \<^verbatim>\<open>Date.now()\<close> of a run yields \<open>now\<close>.
  The answer of an endpoint has the shape the handler casts it to; a body that is not
  JSON makes \<^verbatim>\<open>json()\<close> throw, an unreadable one makes
  \<^verbatim>\<open>text()\<close> throw as well. A rejected host operation throws and changes
  nothing.
\<close>

record env =
  now :: int
  fails :: "host_op \<Rightarrow> bool"
  req_query :: "(string \<times> string) list"
  req_headers :: "(string \<times> string) list"
  user_id :: "string option"
  random_state :: string
  token_api :: "http_request \<Rightarrow> token_json fetch_result"
  userinfo_api :: "http_request \<Rightarrow> userinfo_json fetch_result"
  files_api :: "http_request \<Rightarrow> drive_file list fetch_result"
  about_api :: "http_request \<Rightarrow> storage_quota option fetch_result"
  revoke_api :: "http_request \<Rightarrow> unit fetch_result"

datatype stage = SyncUpload | SyncDownload

text \<open>
  The two stores, with a trace of the requests sent and of the sync stages entered.
\<close>

record world =
  storage :: "(string \<times> sval) list"
  secrets :: "(string \<times> string) list"
  net_log :: "http_request list"
  calls :: "stage list"

record connection_status =
  connected :: bool
  userEmail :: "sval option"
  userName :: "sval option"
  userPicture :: "sval option"
  connectedAt :: "sval option"
  lastSyncAt :: "sval option"
  quotaUsed :: "string option"
  quotaTotal :: "string option"

datatype json_data =
    StatusJson connection_status
  | ConnectJson string "(string \<times> string) list" string
  | SyncJson sync_result
  | DisconnectJson bool string

datatype redirect_target = SettingsError string | SettingsConnected

datatype response = Json json_data | Error string nat | Redirect redirect_target

subsection \<open>Sequencing with exceptions\<close>

text \<open>
  An awaited call returns a value or throws, and may have changed the stores either way.
  \<open>bindx\<close> is an \<^verbatim>\<open>await\<close> followed by the rest of the block,
  \<open>try_catch\<close> a \<^verbatim>\<open>try\<close> block with its handler.
\<close>

definition ret :: "'a \<Rightarrow> 's \<Rightarrow> (exn + 'a) \<times> 's" where
  "ret a s = (Inr a, s)"

definition throw :: "exn \<Rightarrow> 's \<Rightarrow> (exn + 'a) \<times> 's" where
  "throw e s = (Inl e, s)"

definition bindx ::
  "('s \<Rightarrow> (exn + 'a) \<times> 's) \<Rightarrow> ('a \<Rightarrow> 's \<Rightarrow> (exn + 'b) \<times> 's) \<Rightarrow> 's \<Rightarrow> (exn + 'b) \<times> 's" where
  "bindx m f s = (case m s of (Inl e, s') \<Rightarrow> (Inl e, s') | (Inr a, s') \<Rightarrow> f a s')"

definition try_catch ::
  "('s \<Rightarrow> (exn + 'a) \<times> 's) \<Rightarrow> (exn \<Rightarrow> 's \<Rightarrow> (exn + 'a) \<times> 's) \<Rightarrow> 's \<Rightarrow> (exn + 'a) \<times> 's" where
  "try_catch m h s = (case m s of (Inl e, s') \<Rightarrow> h e s' | (Inr a, s') \<Rightarrow> (Inr a, s'))"

subsection \<open>Storage, secrets and HTTP\<close>

definition host_error :: exn where
  "host_error = Exn ''host operation failed''"

definition storage_get :: "env \<Rightarrow> string \<Rightarrow> world \<Rightarrow> (exn + sval option) \<times> world" where
  "storage_get e k w =
     (if fails e (StorageGet k) then (Inl host_error, w) else (Inr (map_of (storage w) k), w))"

definition storage_set :: "env \<Rightarrow> string \<Rightarrow> sval \<Rightarrow> world \<Rightarrow> (exn + unit) \<times> world" where
  "storage_set e k v w =
     (if fails e (StorageSet k) then (Inl host_error, w)
      else (Inr (), w\<lparr>storage := AList.update k v (storage w)\<rparr>))"

definition storage_delete :: "env \<Rightarrow> string \<Rightarrow> world \<Rightarrow> (exn + unit) \<times> world" where
  "storage_delete e k w =
     (if fails e (StorageDelete k) then (Inl host_error, w)
      else (Inr (), w\<lparr>storage := AList.delete k (storage w)\<rparr>))"

definition storage_list :: "env \<Rightarrow> string \<Rightarrow> world \<Rightarrow> (exn + string list) \<times> world" where
  "storage_list e p w =
     (if fails e (StorageList p) then (Inl host_error, w)
      else (Inr (filter (prefix p) (map fst (storage w))), w))"

definition secrets_get :: "env \<Rightarrow> string \<Rightarrow> world \<Rightarrow> (exn + string option) \<times> world" where
  "secrets_get e k w =
     (if fails e (SecretsGet k) then (Inl host_error, w) else (Inr (map_of (secrets w) k), w))"

definition secrets_set :: "env \<Rightarrow> string \<Rightarrow> string \<Rightarrow> world \<Rightarrow> (exn + unit) \<times> world" where
  "secrets_set e k v w =
     (if fails e (SecretsSet k) then (Inl host_error, w)
      else (Inr (), w\<lparr>secrets := AList.update k v (secrets w)\<rparr>))"

definition secrets_delete :: "env \<Rightarrow> string \<Rightarrow> world \<Rightarrow> (exn + unit) \<times> world" where
  "secrets_delete e k w =
     (if fails e (SecretsDelete k) then (Inl host_error, w)
      else (Inr (), w\<lparr>secrets := AList.delete k (secrets w)\<rparr>))"

text \<open>
  \<^verbatim>\<open>fetch\<close> records the request, then either throws (network failure) or
  yields the response's \<^verbatim>\<open>ok\<close> flag and body.
\<close>

definition fetch ::
  "(http_request \<Rightarrow> 'a fetch_result) \<Rightarrow> http_request \<Rightarrow> world \<Rightarrow> (exn + bool \<times> 'a body) \<times> world" where
  "fetch api rq w =
     (case api rq of
        NetworkError m \<Rightarrow> (Inl (Exn m), w\<lparr>net_log := net_log w @ [rq]\<rparr>)
      | Response ok b \<Rightarrow> (Inr (ok, b), w\<lparr>net_log := net_log w @ [rq]\<rparr>))"

definition json :: "'a body \<Rightarrow> world \<Rightarrow> (exn + 'a) \<times> world" where
  "json b = (case b of JsonBody x \<Rightarrow> ret x | _ \<Rightarrow> throw (Exn ''Unexpected token in JSON''))"

definition text_of :: "'a body \<Rightarrow> world \<Rightarrow> (exn + unit) \<times> world" where
  "text_of b = (case b of Unreadable \<Rightarrow> throw (Exn ''body stream failed'') | _ \<Rightarrow> ret ())"

subsection \<open>JavaScript truthiness and string conversion\<close>

text \<open>
  \<open>truthy\<close> is the test \<^verbatim>\<open>!x\<close> negated, on whatever is stored;
  \<open>present\<close> is the same test on an optional string; \<open>render\<close> is the string a
  template literal makes of an optional string.
\<close>

fun truthy :: "sval option \<Rightarrow> bool" where
  "truthy None = False"
| "truthy (Some (VBool b)) = b"
| "truthy (Some (VNum n)) = (n \<noteq> 0)"
| "truthy (Some (VStr s)) = (s \<noteq> [])"
| "truthy (Some _) = True"

definition present :: "string option \<Rightarrow> bool" where
  "present s = (case s of None \<Rightarrow> False | Some x \<Rightarrow> x \<noteq> [])"

definition render :: "string option \<Rightarrow> string" where
  "render s = (case s of None \<Rightarrow> ''undefined'' | Some x \<Rightarrow> x)"

definition or_else :: "string option \<Rightarrow> string option \<Rightarrow> string option" where
  "or_else a b = (if present a then a else b)"

section \<open>Connect handler (server/connect.ts)\<close>

definition callbackPath :: string where
  "callbackPath = ''/extensions/blueplm.google-drive/oauth-callback''"

text \<open>
  \<^verbatim>\<open>headers['origin'] || headers['host'] || ''\<close>, then the callback URL with
  \<^verbatim>\<open>https://\<close> put in front unless the origin starts with \<^verbatim>\<open>http\<close>.
\<close>

definition redirectUri :: "env \<Rightarrow> string" where
  "redirectUri e =
     (let origin =
        (case or_else (or_else (map_of (req_headers e) ''origin'') (map_of (req_headers e) ''host''))
                (Some []) of
           Some x \<Rightarrow> x | None \<Rightarrow> [])
      in if prefix ''http'' origin then origin @ callbackPath
         else ''https://'' @ origin @ callbackPath)"

definition SCOPES :: string where
  "SCOPES = ''https://www.googleapis.com/auth/drive.file https://www.googleapis.com/auth/drive.metadata.readonly https://www.googleapis.com/auth/userinfo.email https://www.googleapis.com/auth/userinfo.profile''"

definition state_key :: "string \<Rightarrow> string" where
  "state_key state = ''oauth_state_'' @ state"

definition connect_body :: "env \<Rightarrow> world \<Rightarrow> (exn + response) \<times> world" where
  "connect_body e =
     bindx (secrets_get e ''GOOGLE_CLIENT_ID'') (\<lambda>clientId.
     if \<not> present clientId then
       ret (Error ''Google Drive is not configured. Please set up OAuth credentials in the organization settings.'' 400)
     else
       bindx (storage_set e (state_key (random_state e)) (VState (now e) (user_id e))) (\<lambda>_.
       ret (Json (ConnectJson ''https://accounts.google.com/o/oauth2/v2/auth''
              [(''client_id'', render clientId),
               (''redirect_uri'', redirectUri e),
               (''response_type'', ''code''),
               (''scope'', SCOPES),
               (''access_type'', ''offline''),
               (''prompt'', ''consent''),
               (''state'', random_state e)]
              (random_state e)))))"

definition connect_handler :: "env \<Rightarrow> world \<Rightarrow> response \<times> world" where
  "connect_handler e w =
     (case connect_body e w of
        (Inr r, w') \<Rightarrow> (r, w')
      | (Inl _, w') \<Rightarrow> (Error ''Failed to initiate Google sign-in. Please try again.'' 500, w'))"

section \<open>OAuth callback handler (server/oauth-callback.ts)\<close>

text \<open>
  The part of the handler after the state token has been verified and deleted: the
  credentials, the code exchange, the token and profile writes, and the final redirect.
\<close>

definition callback_exchange :: "env \<Rightarrow> string \<Rightarrow> world \<Rightarrow> (exn + response) \<times> world" where
  "callback_exchange e code =
     bindx (secrets_get e ''GOOGLE_CLIENT_ID'') (\<lambda>clientId.
     bindx (secrets_get e ''GOOGLE_CLIENT_SECRET'') (\<lambda>clientSecret.
     if \<not> present clientId \<or> \<not> present clientSecret then
       ret (Error ''OAuth credentials not configured'' 500)
     else
       bindx (fetch (token_api e)
                (TokenExchange code (render clientId) (render clientSecret) (redirectUri e)))
         (\<lambda>(ok, tokenBody).
       if \<not> ok then
         bindx (text_of tokenBody) (\<lambda>_.
         ret (Redirect (SettingsError ''Failed to exchange authorization code'')))
       else
         bindx (json tokenBody) (\<lambda>tokens.
         bindx (secrets_set e ''access_token'' (access_token tokens)) (\<lambda>_.
         bindx (if present (refresh_token tokens)
                then secrets_set e ''refresh_token'' (render (refresh_token tokens))
                else ret ()) (\<lambda>_.
         bindx (storage_set e ''token_expires_at'' (VNum (now e + expires_in tokens * 1000))) (\<lambda>_.
         bindx (fetch (userinfo_api e) (UserInfo (access_token tokens))) (\<lambda>(uok, userBody).
         bindx (if uok then
                  bindx (json userBody) (\<lambda>userInfo.
                  bindx (storage_set e ''user_email'' (VStr (email userInfo))) (\<lambda>_.
                  bindx (storage_set e ''user_name'' (VStr (name userInfo))) (\<lambda>_.
                  if present (picture userInfo)
                  then storage_set e ''user_picture'' (VStr (render (picture userInfo)))
                  else ret ())))
                else ret ()) (\<lambda>_.
         bindx (storage_set e ''connected'' (VBool True)) (\<lambda>_.
         bindx (storage_set e ''connected_at'' (VDate (now e))) (\<lambda>_.
         ret (Redirect SettingsConnected))))))))))))"

definition state_expired :: "env \<Rightarrow> sval option \<Rightarrow> bool" where
  "state_expired e storedState =
     (case storedState of
        Some (VState createdAt _) \<Rightarrow> now e - createdAt > 10 * 60 * 1000
      | _ \<Rightarrow> False)"

definition callback_body :: "env \<Rightarrow> world \<Rightarrow> (exn + response) \<times> world" where
  "callback_body e =
     (let code = map_of (req_query e) ''code'';
          state = map_of (req_query e) ''state'';
          oauthError = map_of (req_query e) ''error'';
          error_description = map_of (req_query e) ''error_description''
      in
      if present oauthError then
        ret (Redirect (SettingsError (render (or_else error_description oauthError))))
      else if \<not> present code then ret (Error ''Missing authorization code'' 400)
      else if \<not> present state then ret (Error ''Missing state parameter'' 400)
      else
        bindx (storage_get e (state_key (render state))) (\<lambda>storedState.
        if \<not> truthy storedState then ret (Error ''Invalid or expired state token'' 400)
        else if state_expired e storedState then
          bindx (storage_delete e (state_key (render state))) (\<lambda>_.
          ret (Error ''State token expired. Please try again.'' 400))
        else
          bindx (storage_delete e (state_key (render state))) (\<lambda>_.
          callback_exchange e (render code))))"

definition callback_handler :: "env \<Rightarrow> world \<Rightarrow> response \<times> world" where
  "callback_handler e w =
     (case callback_body e w of
        (Inr r, w') \<Rightarrow> (r, w')
      | (Inl _, w') \<Rightarrow> (Redirect (SettingsError ''An unexpected error occurred''), w'))"

section \<open>Status handler (module server/status, in src/unnamed/part_000)\<close>

definition refreshAccessToken :: "env \<Rightarrow> world \<Rightarrow> (exn + bool) \<times> world" where
  "refreshAccessToken e =
     bindx (secrets_get e ''refresh_token'') (\<lambda>refreshToken.
     if \<not> present refreshToken then ret False
     else
       bindx (secrets_get e ''GOOGLE_CLIENT_ID'') (\<lambda>clientId.
       bindx (secrets_get e ''GOOGLE_CLIENT_SECRET'') (\<lambda>clientSecret.
       if \<not> present clientId \<or> \<not> present clientSecret then ret False
       else
         try_catch
           (bindx (fetch (token_api e)
                     (TokenRefresh (render clientId) (render clientSecret) (render refreshToken)))
              (\<lambda>(ok, tokenBody).
            if \<not> ok then ret False
            else
              bindx (json tokenBody) (\<lambda>data.
              bindx (secrets_set e ''access_token'' (access_token data)) (\<lambda>_.
              bindx (storage_set e ''token_expires_at'' (VNum (now e + expires_in data * 1000))) (\<lambda>_.
              ret True)))))
           (\<lambda>_. ret False))))"

text \<open>
  \<^verbatim>\<open>getQuotaInfo\<close>: the two quota figures are the decimal strings of the response
  (the source hands each to \<^verbatim>\<open>parseInt\<close>), absent when missing or empty.
\<close>

definition getQuotaInfo ::
  "env \<Rightarrow> string \<Rightarrow> world \<Rightarrow> (exn + string option \<times> string option) \<times> world" where
  "getQuotaInfo e accessToken =
     bindx (fetch (about_api e) (AboutQuota accessToken)) (\<lambda>(ok, aboutBody).
     if \<not> ok then ret (None, None)
     else
       bindx (json aboutBody) (\<lambda>data.
       ret (case data of
              None \<Rightarrow> (None, None)
            | Some q \<Rightarrow> (if present (usage q) then usage q else None,
                         if present (limit q) then limit q else None))))"

definition disconnected_status :: connection_status where
  "disconnected_status =
     \<lparr>connected = False, userEmail = None, userName = None, userPicture = None,
      connectedAt = None, lastSyncAt = None, quotaUsed = None, quotaTotal = None\<rparr>"

text \<open>
  \<^verbatim>\<open>accessToken && expiresAt && Date.now() >= expiresAt - buffer\<close> and its
  counterpart with \<^verbatim>\<open><\<close> in the sync handler, for a stored number (the
  handlers store nothing but numbers under \<open>token_expires_at\<close>).
\<close>

definition expires_within :: "env \<Rightarrow> int \<Rightarrow> sval option \<Rightarrow> bool" where
  "expires_within e buffer expiresAt =
     (case expiresAt of Some (VNum x) \<Rightarrow> x \<noteq> 0 \<and> now e \<ge> x - buffer | _ \<Rightarrow> False)"

definition valid_beyond :: "env \<Rightarrow> int \<Rightarrow> sval option \<Rightarrow> bool" where
  "valid_beyond e buffer expiresAt =
     (case expiresAt of Some (VNum x) \<Rightarrow> x \<noteq> 0 \<and> now e < x - buffer | _ \<Rightarrow> False)"

text \<open>The quota request and the connected answer, the end of the status handler.\<close>

definition status_report ::
  "env \<Rightarrow> sval option \<Rightarrow> sval option \<Rightarrow> sval option \<Rightarrow> sval option \<Rightarrow> sval option
     \<Rightarrow> string option \<Rightarrow> world \<Rightarrow> (exn + response) \<times> world" where
  "status_report e userEmail' userName' userPicture' connectedAt' lastSyncAt' accessToken =
     bindx (try_catch (getQuotaInfo e (render accessToken)) (\<lambda>_. ret (None, None)))
       (\<lambda>(used, total).
     ret (Json (StatusJson
       \<lparr>connected = True, userEmail = userEmail', userName = userName',
        userPicture = userPicture', connectedAt = connectedAt', lastSyncAt = lastSyncAt',
        quotaUsed = used, quotaTotal = total\<rparr>)))"

definition status_body :: "env \<Rightarrow> world \<Rightarrow> (exn + response) \<times> world" where
  "status_body e =
     bindx (storage_get e ''connected'') (\<lambda>isConnected.
     if \<not> truthy isConnected then ret (Json (StatusJson disconnected_status))
     else
       bindx (storage_get e ''user_email'') (\<lambda>userEmail'.
       bindx (storage_get e ''user_name'') (\<lambda>userName'.
       bindx (storage_get e ''user_picture'') (\<lambda>userPicture'.
       bindx (storage_get e ''connected_at'') (\<lambda>connectedAt'.
       bindx (storage_get e ''last_sync_at'') (\<lambda>lastSyncAt'.
       bindx (secrets_get e ''access_token'') (\<lambda>accessToken.
       bindx (storage_get e ''token_expires_at'') (\<lambda>expiresAt.
       if present accessToken \<and> expires_within e 60000 expiresAt then
         bindx (refreshAccessToken e) (\<lambda>refreshed.
         if \<not> refreshed then
           bindx (storage_set e ''connected'' (VBool False)) (\<lambda>_.
           ret (Json (StatusJson disconnected_status)))
         else
           status_report e userEmail' userName' userPicture' connectedAt' lastSyncAt' accessToken)
       else
         status_report e userEmail' userName' userPicture' connectedAt' lastSyncAt' accessToken))))))))"

definition status_handler :: "env \<Rightarrow> world \<Rightarrow> response \<times> world" where
  "status_handler e w =
     (case status_body e w of
        (Inr r, w') \<Rightarrow> (r, w')
      | (Inl _, w') \<Rightarrow> (Error ''Failed to check connection status'' 500, w'))"

section \<open>Sync handler (module server/sync, in src/server/connect.ts)\<close>

record stage_result =
  count :: nat
  stage_errors :: nat
  stage_messages :: "string list"

definition getValidAccessToken :: "env \<Rightarrow> world \<Rightarrow> (exn + string option) \<times> world" where
  "getValidAccessToken e =
     bindx (secrets_get e ''access_token'') (\<lambda>accessToken.
     bindx (storage_get e ''token_expires_at'') (\<lambda>expiresAt.
     if present accessToken \<and> valid_beyond e (5 * 60 * 1000) expiresAt then ret accessToken
     else
       bindx (secrets_get e ''refresh_token'') (\<lambda>refreshToken.
       if \<not> present refreshToken then ret None
       else
         bindx (secrets_get e ''GOOGLE_CLIENT_ID'') (\<lambda>clientId.
         bindx (secrets_get e ''GOOGLE_CLIENT_SECRET'') (\<lambda>clientSecret.
         if \<not> present clientId \<or> \<not> present clientSecret then ret None
         else
           try_catch
             (bindx (fetch (token_api e)
                       (TokenRefresh (render clientId) (render clientSecret) (render refreshToken)))
                (\<lambda>(ok, tokenBody).
              if \<not> ok then bindx (text_of tokenBody) (\<lambda>_. ret None)
              else
                bindx (json tokenBody) (\<lambda>data.
                bindx (secrets_set e ''access_token'' (access_token data)) (\<lambda>_.
                bindx (storage_set e ''token_expires_at'' (VNum (now e + expires_in data * 1000))) (\<lambda>_.
                ret (Some (access_token data)))))))
             (\<lambda>_. ret None))))))"

text \<open>The upload stage is the placeholder of the source: it reports nothing done.\<close>

definition syncUpload ::
  "env \<Rightarrow> string \<Rightarrow> string list \<Rightarrow> world \<Rightarrow> (exn + stage_result) \<times> world" where
  "syncUpload e accessToken patterns w =
     (Inr \<lparr>count = 0, stage_errors = 0, stage_messages = []\<rparr>,
      w\<lparr>calls := calls w @ [SyncUpload]\<rparr>)"

text \<open>
  \<^verbatim>\<open>data.files.filter(file => !shouldExclude(file.name, excludePatterns))\<close>
\<close>

fun filesToSync :: "drive_file list \<Rightarrow> string list \<Rightarrow> exn + drive_file list" where
  "filesToSync [] patterns = Inr []"
| "filesToSync (f # fs) patterns =
     (case shouldExclude (file_name f) patterns of
        Inl x \<Rightarrow> Inl x
      | Inr excluded \<Rightarrow>
          (case filesToSync fs patterns of
             Inl x \<Rightarrow> Inl x
           | Inr rest \<Rightarrow> Inr (if excluded then rest else f # rest)))"

definition exn_message :: "exn \<Rightarrow> string" where
  "exn_message x = (case x of Exn m \<Rightarrow> m)"

definition syncDownload ::
  "env \<Rightarrow> string \<Rightarrow> string list \<Rightarrow> world \<Rightarrow> (exn + stage_result) \<times> world" where
  "syncDownload e accessToken patterns w =
     try_catch
       (bindx (fetch (files_api e) (ListFiles accessToken)) (\<lambda>(ok, filesBody).
        if \<not> ok then
          ret \<lparr>count = 0, stage_errors = 1,
               stage_messages = [''Failed to list files from Google Drive'']\<rparr>
        else
          bindx (json filesBody) (\<lambda>files.
          (case filesToSync files patterns of
             Inl x \<Rightarrow> throw x
           | Inr _ \<Rightarrow> ret \<lparr>count = 0, stage_errors = 0, stage_messages = []\<rparr>))))
       (\<lambda>x. ret \<lparr>count = 0, stage_errors = 1, stage_messages = [exn_message x]\<rparr>)
       (w\<lparr>calls := calls w @ [SyncDownload]\<rparr>)"

definition effective_direction :: "config \<Rightarrow> string" where
  "effective_direction cfg =
     (if present (syncDirection cfg) then render (syncDirection cfg) else ''bidirectional'')"

definition effective_patterns :: "config \<Rightarrow> string list" where
  "effective_patterns cfg = (case excludePatterns cfg of Some ps \<Rightarrow> ps | None \<Rightarrow> [])"

definition stored_config :: "sval option \<Rightarrow> config" where
  "stored_config v =
     (case v of
        Some (VConfig cfg) \<Rightarrow> cfg
      | _ \<Rightarrow> \<lparr>syncDirection = None, excludePatterns = None\<rparr>)"

definition initial_result :: sync_result where
  "initial_result =
     \<lparr>success = True, synced = 0, uploaded = 0, downloaded = 0, errors = 0, errorMessages = []\<rparr>"

definition add_upload :: "stage_result \<Rightarrow> sync_result \<Rightarrow> sync_result" where
  "add_upload u r =
     r\<lparr>uploaded := count u, errors := errors r + stage_errors u,
       errorMessages := errorMessages r @ stage_messages u\<rparr>"

definition add_download :: "stage_result \<Rightarrow> sync_result \<Rightarrow> sync_result" where
  "add_download d r =
     r\<lparr>downloaded := count d, errors := errors r + stage_errors d,
       errorMessages := errorMessages r @ stage_messages d\<rparr>"

definition totals :: "sync_result \<Rightarrow> sync_result" where
  "totals r = r\<lparr>synced := uploaded r + downloaded r, success := (errors r = 0)\<rparr>"

text \<open>
  The handler from the point where the access token is in hand: the configuration, the
  two stages according to the direction, the totals, and the record of the pass.
\<close>

definition sync_dispatch :: "env \<Rightarrow> string \<Rightarrow> world \<Rightarrow> (exn + response) \<times> world" where
  "sync_dispatch e accessToken =
     bindx (storage_get e ''config'') (\<lambda>stored.
     (let cfg = stored_config stored;
          direction = effective_direction cfg;
          patterns = effective_patterns cfg
      in
      bindx (if direction = ''bidirectional'' \<or> direction = ''upload-only'' then
               bindx (syncUpload e accessToken patterns) (\<lambda>uploadResult.
               ret (add_upload uploadResult initial_result))
             else ret initial_result) (\<lambda>result1.
      bindx (if direction = ''bidirectional'' \<or> direction = ''download-only'' then
               bindx (syncDownload e accessToken patterns) (\<lambda>downloadResult.
               ret (add_download downloadResult result1))
             else ret result1) (\<lambda>result2.
      bindx (storage_set e ''last_sync_at'' (VDate (now e))) (\<lambda>_.
      bindx (storage_set e ''last_sync_result'' (VResult (totals result2))) (\<lambda>_.
      ret (Json (SyncJson (totals result2)))))))))"

definition sync_body :: "env \<Rightarrow> world \<Rightarrow> (exn + response) \<times> world" where
  "sync_body e =
     bindx (storage_get e ''connected'') (\<lambda>isConnected.
     if \<not> truthy isConnected then ret (Error ''Not connected to Google Drive'' 401)
     else
       bindx (getValidAccessToken e) (\<lambda>accessToken.
       if \<not> present accessToken then
         ret (Error ''Failed to get access token. Please reconnect.'' 401)
       else sync_dispatch e (render accessToken)))"

definition sync_handler :: "env \<Rightarrow> world \<Rightarrow> response \<times> world" where
  "sync_handler e w =
     (case sync_body e w of
        (Inr r, w') \<Rightarrow> (r, w')
      | (Inl _, w') \<Rightarrow> (Error ''Sync failed unexpectedly. Please try again.'' 500, w'))"

section \<open>Disconnect handler (server/disconnect.ts)\<close>

definition keysToDelete :: "string list" where
  "keysToDelete =
     [''connected'', ''connected_at'', ''token_expires_at'', ''user_email'', ''user_name'',
      ''user_picture'', ''last_sync_at'', ''last_sync_result'', ''sync_cursor'']"

fun delete_each :: "env \<Rightarrow> string list \<Rightarrow> world \<Rightarrow> (exn + unit) \<times> world" where
  "delete_each e [] = ret ()"
| "delete_each e (key # keys) = bindx (storage_delete e key) (\<lambda>_. delete_each e keys)"

definition disconnect_body :: "env \<Rightarrow> world \<Rightarrow> (exn + response) \<times> world" where
  "disconnect_body e =
     bindx (secrets_get e ''access_token'') (\<lambda>accessToken.
     bindx (if present accessToken then
              try_catch
                (bindx (fetch (revoke_api e) (Revoke (render accessToken))) (\<lambda>_. ret ()))
                (\<lambda>_. ret ())
            else ret ()) (\<lambda>_.
     bindx (secrets_delete e ''access_token'') (\<lambda>_.
     bindx (secrets_delete e ''refresh_token'') (\<lambda>_.
     bindx (delete_each e keysToDelete) (\<lambda>_.
     bindx (storage_list e ''oauth_state_'') (\<lambda>allKeys.
     bindx (delete_each e allKeys) (\<lambda>_.
     ret (Json (DisconnectJson True ''Successfully disconnected from Google Drive'')))))))))"

definition disconnect_handler :: "env \<Rightarrow> world \<Rightarrow> response \<times> world" where
  "disconnect_handler e w =
     (case disconnect_body e w of
        (Inr r, w') \<Rightarrow> (r, w')
      | (Inl _, w') \<Rightarrow>
          (Error ''Failed to fully disconnect. Please try again.'' 500,
           snd (try_catch (storage_set e ''connected'' (VBool False)) (\<lambda>_. ret ()) w')))"

section \<open>Notions used to state the properties\<close>




text \<open>The host accepts every storage and secret operation of the run.\<close>

definition host_ok :: "env \<Rightarrow> bool" where
  "host_ok e = (\<forall>op. \<not> fails e op)"

text \<open>
  The request is an authorization response for the state \<open>s\<close>: no \<^verbatim>\<open>error\<close>
  parameter, a \<^verbatim>\<open>code\<close>, and \<^verbatim>\<open>state\<close> equal to \<open>s\<close>.
\<close>

definition presents :: "env \<Rightarrow> string \<Rightarrow> bool" where
  "presents e s =
     (\<not> present (map_of (req_query e) ''error'')
      \<and> present (map_of (req_query e) ''code'')
      \<and> s \<noteq> [] \<and> map_of (req_query e) ''state'' = Some s)"

definition keeps :: "(world \<Rightarrow> bool) \<Rightarrow> (world \<Rightarrow> (exn + 'a) \<times> world) \<Rightarrow> bool" where
  "keeps P m = (\<forall>w. P w \<longrightarrow> P (snd (m w)))"

definition absent :: "string \<Rightarrow> world \<Rightarrow> bool" where
  "absent k w = (map_of (storage w) k = None)"

text \<open>The directions under which each stage of the sync handler runs.\<close>

definition uploads :: "string \<Rightarrow> bool" where
  "uploads direction = (direction = ''bidirectional'' \<or> direction = ''upload-only'')"

definition downloads :: "string \<Rightarrow> bool" where
  "downloads direction = (direction = ''bidirectional'' \<or> direction = ''download-only'')"

text \<open>
  What obtaining the access token leaves alone: the stage trace, the configuration, and
  the set of file-listing requests sent so far.
\<close>

definition untouched :: "world \<Rightarrow> world \<Rightarrow> bool" where
  "untouched w w' =
     (calls w' = calls w
      \<and> map_of (storage w') ''config'' = map_of (storage w) ''config''
      \<and> (\<forall>t. ListFiles t \<in> set (net_log w') \<longrightarrow> ListFiles t \<in> set (net_log w)))"


text \<open>
  Every quota request sent between two worlds carries the given token.
\<close>

definition quota_only_with :: "string \<Rightarrow> world \<Rightarrow> world \<Rightarrow> bool" where
  "quota_only_with tok w w' =
     (\<forall>t. AboutQuota t \<in> set (net_log w') \<longrightarrow> AboutQuota t \<in> set (net_log w) \<or> t = tok)"

subsection \<open>Sample runs\<close>

definition quiet_env :: env where
  "quiet_env =
     \<lparr>now = 1700000000000, fails = (\<lambda>_. False), req_query = [],
      req_headers = [(''host'', ''plm.example.com'')], user_id = Some ''user-1'',
      random_state = ''00112233445566778899aabbccddeeff00112233445566778899aabbccddeeff'',
      token_api = (\<lambda>_. Response False NotJson),
      userinfo_api = (\<lambda>_. Response False NotJson),
      files_api = (\<lambda>_. Response True (JsonBody [])),
      about_api = (\<lambda>_. Response True (JsonBody None)),
      revoke_api = (\<lambda>_. NetworkError ''connection reset'')\<rparr>"

definition callback_env :: "int \<Rightarrow> env" where
  "callback_env minutes =
     quiet_env\<lparr>now := 1700000000000 + minutes * 60000,
       req_query := [(''code'', ''4/0AbCd''),
         (''state'', ''00112233445566778899aabbccddeeff00112233445566778899aabbccddeeff'')]\<rparr>"

definition configured_world :: world where
  "configured_world =
     \<lparr>storage = [],
      secrets = [(''GOOGLE_CLIENT_ID'', ''client-id''), (''GOOGLE_CLIENT_SECRET'', ''client-secret'')],
      net_log = [], calls = []\<rparr>"

definition pending_world :: world where
  "pending_world =
     configured_world\<lparr>storage :=
       [(state_key ''00112233445566778899aabbccddeeff00112233445566778899aabbccddeeff'',
         VState 1700000000000 (Some ''user-1''))]\<rparr>"

definition offline_env :: env where
  "offline_env = quiet_env\<lparr>token_api := (\<lambda>_. NetworkError ''fetch failed'')\<rparr>"

definition refreshing_env :: env where
  "refreshing_env =
     quiet_env\<lparr>token_api := (\<lambda>_. Response True
       (JsonBody \<lparr>access_token = ''ya29.new'', refresh_token = None, expires_in = 3599\<rparr>))\<rparr>"

definition failing_list_env :: env where
  "failing_list_env = quiet_env\<lparr>files_api := (\<lambda>_. NetworkError ''fetch failed'')\<rparr>"

definition broken_host_env :: env where
  "broken_host_env = quiet_env\<lparr>fails := (\<lambda>op. op = StorageGet ''connected'')\<rparr>"

definition all_secrets :: "(string \<times> string) list" where
  "all_secrets =
     [(''access_token'', ''ya29.old''), (''refresh_token'', ''1//refresh''),
      (''GOOGLE_CLIENT_ID'', ''client-id''), (''GOOGLE_CLIENT_SECRET'', ''client-secret'')]"

text \<open>Connected, with an access token that expires thirty seconds from now.\<close>

definition expiring_world :: world where
  "expiring_world =
     \<lparr>storage = [(''connected'', VBool True), (''token_expires_at'', VNum 1700000030000),
                 (''user_email'', VStr ''ada@example.com'')],
      secrets = all_secrets, net_log = [], calls = []\<rparr>"

text \<open>Connected, with an access token that expired long ago and no refresh token.\<close>

definition stale_world :: world where
  "stale_world =
     \<lparr>storage = [(''connected'', VBool True), (''token_expires_at'', VNum 1699990000000)],
      secrets = [(''access_token'', ''ya29.old''),
                 (''GOOGLE_CLIENT_ID'', ''client-id''), (''GOOGLE_CLIENT_SECRET'', ''client-secret'')],
      net_log = [], calls = []\<rparr>"

text \<open>Marked connected, with no token at all.\<close>

definition tokenless_world :: world where
  "tokenless_world = configured_world\<lparr>storage := [(''connected'', VBool True)]\<rparr>"

text \<open>Connected, with a token valid for another hour and a configured direction.\<close>

definition ready_world :: "string \<Rightarrow> world" where
  "ready_world direction =
     \<lparr>storage = [(''connected'', VBool True), (''token_expires_at'', VNum 1700003600000),
                 (''config'', VConfig \<lparr>syncDirection = Some direction,
                                        excludePatterns = Some [''*.tmp'']\<rparr>)],
      secrets = all_secrets, net_log = [], calls = []\<rparr>"

text \<open>Connected, with a pending state token and the client's configuration.\<close>

definition linked_world :: world where
  "linked_world =
     \<lparr>storage = [(''connected'', VBool True), (''user_email'', VStr ''ada@example.com''),
                 (state_key ''00112233445566778899aabbccddeeff00112233445566778899aabbccddeeff'',
                  VState 1700000000000 (Some ''user-1'')),
                 (''config'', VConfig \<lparr>syncDirection = None, excludePatterns = None\<rparr>)],
      secrets = all_secrets, net_log = [], calls = []\<rparr>"

section \<open>The rewriting of a glob yields the expected expression\<close>












declare tokens.simps [simp del]









section \<open>Running the handlers on a reliable host\<close>

lemma bindx_ret [simp]: "bindx (ret a) f = f a"
  by (rule ext) (simp add: bindx_def ret_def)

lemma bindx_Inr: "m s = (Inr a, s') \<Longrightarrow> bindx m f s = f a s'"
  by (simp add: bindx_def)

lemma bindx_Inl: "m s = (Inl x, s') \<Longrightarrow> bindx m f s = (Inl x, s')"
  by (simp add: bindx_def)

lemma ok_storage_get: "host_ok e \<Longrightarrow> storage_get e k w = (Inr (map_of (storage w) k), w)"
  by (simp add: storage_get_def host_ok_def)

lemma ok_storage_set:
  "host_ok e \<Longrightarrow> storage_set e k v w = (Inr (), w\<lparr>storage := AList.update k v (storage w)\<rparr>)"
  by (simp add: storage_set_def host_ok_def)

lemma ok_storage_delete:
  "host_ok e \<Longrightarrow> storage_delete e k w = (Inr (), w\<lparr>storage := AList.delete k (storage w)\<rparr>)"
  by (simp add: storage_delete_def host_ok_def)

lemma ok_storage_list:
  "host_ok e \<Longrightarrow> storage_list e p w = (Inr (filter (prefix p) (map fst (storage w))), w)"
  by (simp add: storage_list_def host_ok_def)

lemma ok_secrets_get: "host_ok e \<Longrightarrow> secrets_get e k w = (Inr (map_of (secrets w) k), w)"
  by (simp add: secrets_get_def host_ok_def)

lemma ok_secrets_set:
  "host_ok e \<Longrightarrow> secrets_set e k v w = (Inr (), w\<lparr>secrets := AList.update k v (secrets w)\<rparr>)"
  by (simp add: secrets_set_def host_ok_def)

lemma ok_secrets_delete:
  "host_ok e \<Longrightarrow> secrets_delete e k w = (Inr (), w\<lparr>secrets := AList.delete k (secrets w)\<rparr>)"
  by (simp add: secrets_delete_def host_ok_def)

lemmas host_ok_ops = ok_storage_get ok_storage_set ok_storage_delete ok_storage_list
  ok_secrets_get ok_secrets_set ok_secrets_delete

lemma callback_reaches_verification:
  assumes "presents e s"
  shows "callback_body e =
     bindx (storage_get e (state_key s)) (\<lambda>storedState.
        if \<not> truthy storedState then ret (Error ''Invalid or expired state token'' 400)
        else if state_expired e storedState then
          bindx (storage_delete e (state_key s)) (\<lambda>_.
          ret (Error ''State token expired. Please try again.'' 400))
        else
          bindx (storage_delete e (state_key s)) (\<lambda>_.
          callback_exchange e (render (map_of (req_query e) ''code''))))"
proof -
  have "render (Some s) = s" by (simp add: render_def)
  moreover have "present (Some s)" using assms by (simp add: presents_def present_def)
  ultimately show ?thesis
    using assms by (simp add: callback_body_def presents_def Let_def cong: if_cong)
qed

lemma callback_unknown_state:
  assumes "host_ok e" "presents e s" "map_of (storage w) (state_key s) = None"
  shows "callback_handler e w = (Error ''Invalid or expired state token'' 400, w)"
  using assms
  by (simp add: callback_handler_def callback_reaches_verification bindx_def host_ok_ops ret_def)

lemma callback_fresh:
  assumes "host_ok e" "presents e s"
    and "map_of (storage w) (state_key s) = Some (VState createdAt uid)"
    and "now e - createdAt \<le> 10 * 60 * 1000"
  shows "callback_body e w =
           callback_exchange e (render (map_of (req_query e) ''code''))
             (w\<lparr>storage := AList.delete (state_key s) (storage w)\<rparr>)"
  using assms
  by (simp add: callback_reaches_verification bindx_def host_ok_ops state_expired_def)

lemma keeps_ret: "keeps P (ret a)"
  by (simp add: keeps_def ret_def)

lemma keeps_bindx: "keeps P m \<Longrightarrow> (\<And>a. keeps P (f a)) \<Longrightarrow> keeps P (bindx m f)"
  unfolding keeps_def bindx_def
  by (auto split: prod.splits sum.splits)

lemma keeps_try_catch: "keeps P m \<Longrightarrow> (\<And>x. keeps P (h x)) \<Longrightarrow> keeps P (try_catch m h)"
  unfolding keeps_def try_catch_def
  by (auto split: prod.splits sum.splits)

lemma keeps_if: "keeps P a \<Longrightarrow> keeps P b \<Longrightarrow> keeps P (if c then a else b)"
  by simp

lemma keeps_case_prod: "(\<And>a b. keeps P (f a b)) \<Longrightarrow> keeps P (case x of (a, b) \<Rightarrow> f a b)"
  by (cases x) simp

lemma absent_secrets_get: "keeps (absent k) (secrets_get e k')"
  by (simp add: keeps_def secrets_get_def)

lemma absent_secrets_set: "keeps (absent k) (secrets_set e k' v)"
  by (simp add: keeps_def secrets_set_def absent_def)

lemma absent_storage_set: "k' \<noteq> k \<Longrightarrow> keeps (absent k) (storage_set e k' v)"
  by (simp add: keeps_def storage_set_def absent_def AList.update_conv')

lemma absent_fetch: "keeps (absent k) (fetch api rq)"
  by (simp add: keeps_def fetch_def absent_def split: fetch_result.splits)

lemma absent_json: "keeps (absent k) (json b)"
  by (simp add: keeps_def json_def ret_def throw_def split: body.splits)

lemma absent_text_of: "keeps (absent k) (text_of b)"
  by (simp add: keeps_def text_of_def ret_def throw_def split: body.splits)

lemma state_key_differs:
  "''token_expires_at'' \<noteq> state_key s" "''user_email'' \<noteq> state_key s"
  "''user_name'' \<noteq> state_key s" "''user_picture'' \<noteq> state_key s"
  "''connected'' \<noteq> state_key s" "''connected_at'' \<noteq> state_key s"
  by (simp_all add: state_key_def)

lemma callback_exchange_keeps_absent: "keeps (absent (state_key s)) (callback_exchange e code)"
  unfolding callback_exchange_def
  by (intro keeps_bindx keeps_if keeps_case_prod keeps_ret absent_secrets_get absent_secrets_set
      absent_fetch absent_json absent_text_of absent_storage_set state_key_differs)

lemma connect_stores_state:
  assumes "host_ok e" "present (map_of (secrets w) ''GOOGLE_CLIENT_ID'')"
  shows "snd (connect_handler e w) =
           w\<lparr>storage := AList.update (state_key (random_state e)) (VState (now e) (user_id e)) (storage w)\<rparr>"
  using assms
  by (simp add: connect_handler_def connect_body_def bindx_def host_ok_ops ret_def)


section \<open>The status handler on a reliable host\<close>

lemma refresh_never_throws:
  assumes "host_ok e"
  shows "\<exists>b w'. refreshAccessToken e w = (Inr b, w')"
proof -
  have caught: "\<exists>b w'. try_catch m (\<lambda>_. ret False) s = (Inr b, w')"
    for m :: "world \<Rightarrow> (exn + bool) \<times> world" and s
    by (cases "m s" rule: prod.exhaust; cases "fst (m s)")
       (auto simp: try_catch_def ret_def)
  show ?thesis
    using assms caught
    by (auto simp: refreshAccessToken_def bindx_def host_ok_ops ret_def)
qed

lemma status_refresh_path:
  assumes "host_ok e" and "truthy (map_of (storage w) ''connected'')"
    and "present (map_of (secrets w) ''access_token'')"
    and "expires_within e 60000 (map_of (storage w) ''token_expires_at'')"
  shows "status_body e w =
     bindx (refreshAccessToken e) (\<lambda>refreshed.
         if \<not> refreshed then
           bindx (storage_set e ''connected'' (VBool False)) (\<lambda>_.
           ret (Json (StatusJson disconnected_status)))
         else
           status_report e (map_of (storage w) ''user_email'') (map_of (storage w) ''user_name'')
             (map_of (storage w) ''user_picture'') (map_of (storage w) ''connected_at'')
             (map_of (storage w) ''last_sync_at'') (map_of (secrets w) ''access_token'')) w"
  using assms by (simp add: status_body_def bindx_def host_ok_ops)

lemma status_failed_refresh:
  assumes "host_ok e" and "truthy (map_of (storage w) ''connected'')"
    and "present (map_of (secrets w) ''access_token'')"
    and "expires_within e 60000 (map_of (storage w) ''token_expires_at'')"
    and "refreshAccessToken e w = (Inr False, w1)"
  shows "status_body e w =
     (Inr (Json (StatusJson disconnected_status)),
      w1\<lparr>storage := AList.update ''connected'' (VBool False) (storage w1)\<rparr>)"
  using assms(1,5) unfolding status_refresh_path [OF assms(1-4)]
  by (simp add: bindx_def host_ok_ops ret_def)

lemma refresh_endpoint_failure:
  assumes "host_ok e"
    and "map_of (secrets w) ''refresh_token'' = Some rt" and "rt \<noteq> []"
    and "map_of (secrets w) ''GOOGLE_CLIENT_ID'' = Some cid" and "cid \<noteq> []"
    and "map_of (secrets w) ''GOOGLE_CLIENT_SECRET'' = Some cs" and "cs \<noteq> []"
    and "case token_api e (TokenRefresh cid cs rt) of NetworkError _ \<Rightarrow> True | Response ok _ \<Rightarrow> \<not> ok"
  shows "refreshAccessToken e w = (Inr False, w\<lparr>net_log := net_log w @ [TokenRefresh cid cs rt]\<rparr>)"
  using assms
  by (simp add: refreshAccessToken_def bindx_def host_ok_ops ret_def try_catch_def fetch_def
      present_def render_def split: fetch_result.splits)

lemma getQuotaInfo_log:
  "\<exists>r. getQuotaInfo e tok w = (r, w\<lparr>net_log := net_log w @ [AboutQuota tok]\<rparr>)"
proof (cases "about_api e (AboutQuota tok)")
  case (NetworkError m)
  then show ?thesis by (simp add: getQuotaInfo_def bindx_def fetch_def)
next
  case (Response ok b)
  then show ?thesis
    by (cases b; cases ok)
       (simp_all add: getQuotaInfo_def bindx_def fetch_def ret_def json_def throw_def)
qed

lemma status_report_log:
  "\<exists>r. status_report e a b c d l tok w
      = (Inr r, w\<lparr>net_log := net_log w @ [AboutQuota (render tok)]\<rparr>)"
proof -
  obtain q where q: "getQuotaInfo e (render tok) w
      = (q, w\<lparr>net_log := net_log w @ [AboutQuota (render tok)]\<rparr>)"
    using getQuotaInfo_log by blast
  show ?thesis
    by (cases q) (simp_all add: status_report_def bindx_def try_catch_def q ret_def split: prod.splits)
qed

lemma refresh_success:
  assumes "host_ok e"
    and "map_of (secrets w) ''refresh_token'' = Some rt" and "rt \<noteq> []"
    and "map_of (secrets w) ''GOOGLE_CLIENT_ID'' = Some cid" and "cid \<noteq> []"
    and "map_of (secrets w) ''GOOGLE_CLIENT_SECRET'' = Some cs" and "cs \<noteq> []"
    and "token_api e (TokenRefresh cid cs rt) = Response True (JsonBody d)"
  shows "refreshAccessToken e w =
     (Inr True,
      w\<lparr>net_log := net_log w @ [TokenRefresh cid cs rt],
        secrets := AList.update ''access_token'' (access_token d) (secrets w),
        storage := AList.update ''token_expires_at'' (VNum (now e + expires_in d * 1000)) (storage w)\<rparr>)"
  using assms
  by (simp add: refreshAccessToken_def bindx_def host_ok_ops ret_def try_catch_def fetch_def
      present_def render_def json_def)


lemma storage_get_bind:
  "bindx (storage_get e k) f w =
     (if fails e (StorageGet k) then (Inl host_error, w) else f (map_of (storage w) k) w)"
  by (simp add: bindx_def storage_get_def)

lemma secrets_get_bind:
  "bindx (secrets_get e k) f w =
     (if fails e (SecretsGet k) then (Inl host_error, w) else f (map_of (secrets w) k) w)"
  by (simp add: bindx_def secrets_get_def)

lemma quota_keeps_refresh: "keeps (quota_only_with tok w0) (refreshAccessToken e)"
proof -
  have get: "keeps (quota_only_with tok w0) (secrets_get e k)" for k
    by (simp add: keeps_def secrets_get_def)
  have sset: "keeps (quota_only_with tok w0) (secrets_set e k v)" for k v
    by (simp add: keeps_def secrets_set_def quota_only_with_def)
  have expiry: "keeps (quota_only_with tok w0) (storage_set e k v)" for k v
    by (simp add: keeps_def storage_set_def quota_only_with_def)
  have refresh: "keeps (quota_only_with tok w0) (fetch (token_api e) (TokenRefresh a b c))" for a b c
    by (auto simp: keeps_def fetch_def quota_only_with_def split: fetch_result.splits)
  have js: "keeps (quota_only_with tok w0) (json b)" for b :: "token_json body"
    by (simp add: keeps_def json_def ret_def throw_def split: body.splits)
  show ?thesis
    unfolding refreshAccessToken_def
    by (intro keeps_bindx keeps_if keeps_case_prod keeps_try_catch keeps_ret get sset expiry
        refresh js)
qed

lemma quota_keeps_report:
  "keeps (quota_only_with (render tok) w0) (status_report e a b c d l tok)"
proof -
  have rq: "keeps (quota_only_with (render tok) w0) (fetch (about_api e) (AboutQuota (render tok)))"
    by (auto simp: keeps_def fetch_def quota_only_with_def split: fetch_result.splits)
  have js: "keeps (quota_only_with (render tok) w0) (json b)" for b :: "storage_quota option body"
    by (simp add: keeps_def json_def ret_def throw_def split: body.splits)
  show ?thesis
    unfolding status_report_def getQuotaInfo_def
    by (intro keeps_bindx keeps_if keeps_case_prod keeps_try_catch keeps_ret rq js)
qed

lemma quota_keeps_set: "keeps (quota_only_with tok w0) (storage_set e k v)"
  by (simp add: keeps_def storage_set_def quota_only_with_def)

lemma status_quota_old_token:
  "quota_only_with (render (map_of (secrets w) ''access_token'')) w (snd (status_handler e w))"
proof -
  let ?tok = "map_of (secrets w) ''access_token''"
  let ?I = "quota_only_with (render ?tok) w"
  have start: "?I w" by (simp add: quota_only_with_def)
  have "keeps ?I (status_report e a b c d l ?tok)" for a b c d l
    by (rule quota_keeps_report)
  then have t1: "?I (snd (status_report e a b c d l ?tok w))" for a b c d l
    using start unfolding keeps_def by blast
  have "keeps ?I (bindx (refreshAccessToken e) (\<lambda>refreshed.
         if \<not> refreshed then
           bindx (storage_set e ''connected'' (VBool False)) (\<lambda>_.
           ret (Json (StatusJson disconnected_status)))
         else
           status_report e a b c d l ?tok))" for a b c d l
    by (intro keeps_bindx keeps_if keeps_ret quota_keeps_refresh quota_keeps_report quota_keeps_set)
  then have t2: "?I (snd (bindx (refreshAccessToken e) (\<lambda>refreshed.
         if \<not> refreshed then
           bindx (storage_set e ''connected'' (VBool False)) (\<lambda>_.
           ret (Json (StatusJson disconnected_status)))
         else
           status_report e a b c d l ?tok) w))" for a b c d l
    using start unfolding keeps_def by blast
  have "?I (snd (status_body e w))"
    unfolding status_body_def
    by (simp add: storage_get_bind secrets_get_bind start ret_def t1 t2 cong: if_cong)
  moreover have "snd (status_handler e w) = snd (status_body e w)"
    by (simp add: status_handler_def split: prod.splits sum.splits)
  ultimately show ?thesis by simp
qed

lemma status_quota_after_refresh:
  assumes "host_ok e" and conn: "truthy (map_of (storage w) ''connected'')"
    and tok: "map_of (secrets w) ''access_token'' = Some old" "old \<noteq> []"
    and exp: "expires_within e 60000 (map_of (storage w) ''token_expires_at'')"
    and creds: "map_of (secrets w) ''refresh_token'' = Some rt" "rt \<noteq> []"
      "map_of (secrets w) ''GOOGLE_CLIENT_ID'' = Some cid" "cid \<noteq> []"
      "map_of (secrets w) ''GOOGLE_CLIENT_SECRET'' = Some cs" "cs \<noteq> []"
    and answer: "token_api e (TokenRefresh cid cs rt) = Response True (JsonBody d)"
  shows "net_log (snd (status_handler e w)) = net_log w @ [TokenRefresh cid cs rt, AboutQuota old]
     \<and> map_of (secrets (snd (status_handler e w))) ''access_token'' = Some (access_token d)"
proof -
  have p: "present (map_of (secrets w) ''access_token'')" using tok by (simp add: present_def)
  note path = status_refresh_path [OF assms(1) conn p exp]
  let ?w1 = "w\<lparr>net_log := net_log w @ [TokenRefresh cid cs rt],
        secrets := AList.update ''access_token'' (access_token d) (secrets w),
        storage := AList.update ''token_expires_at'' (VNum (now e + expires_in d * 1000)) (storage w)\<rparr>"
  let ?report = "status_report e (map_of (storage w) ''user_email'') (map_of (storage w) ''user_name'')
             (map_of (storage w) ''user_picture'') (map_of (storage w) ''connected_at'')
             (map_of (storage w) ''last_sync_at'') (Some old)"
  have r: "refreshAccessToken e w = (Inr True, ?w1)"
    using refresh_success [OF assms(1) creds answer] .
  have body: "status_body e w = ?report ?w1"
    using r tok unfolding path by (simp add: bindx_def)
  obtain res where "?report ?w1 = (Inr res, ?w1\<lparr>net_log := net_log ?w1 @ [AboutQuota (render (Some old))]\<rparr>)"
    using status_report_log by blast
  with body have "snd (status_handler e w) = ?w1\<lparr>net_log := net_log ?w1 @ [AboutQuota (render (Some old))]\<rparr>"
    by (simp add: status_handler_def)
  then show ?thesis by (simp add: render_def AList.update_conv')
qed

section \<open>The stages of the sync handler\<close>

lemma bindx_InrE:
  assumes "bindx m f w = (Inr b, w')"
  obtains a w1 where "m w = (Inr a, w1)" and "f a w1 = (Inr b, w')"
  using assms by (auto simp: bindx_def split: prod.splits sum.splits)

lemma syncUpload_run:
  "syncUpload e tok ps w =
     (Inr \<lparr>count = 0, stage_errors = 0, stage_messages = []\<rparr>, w\<lparr>calls := calls w @ [SyncUpload]\<rparr>)"
  by (simp add: syncUpload_def)

lemma syncDownload_run:
  "\<exists>d. syncDownload e tok ps w =
          (Inr d, w\<lparr>calls := calls w @ [SyncDownload], net_log := net_log w @ [ListFiles tok]\<rparr>)
       \<and> count d = 0"
proof (cases "files_api e (ListFiles tok)")
  case (NetworkError m)
  then show ?thesis
    by (simp add: syncDownload_def try_catch_def bindx_def fetch_def ret_def)
next
  case (Response ok b)
  show ?thesis
  proof (cases ok)
    case False
    with Response show ?thesis
      by (simp add: syncDownload_def try_catch_def bindx_def fetch_def ret_def)
  next
    case True
    show ?thesis
    proof (cases b)
      case (JsonBody files)
      with Response True show ?thesis
        by (cases "filesToSync files ps")
           (simp_all add: syncDownload_def try_catch_def bindx_def fetch_def ret_def json_def throw_def)
    qed (use Response True in
        \<open>simp_all add: syncDownload_def try_catch_def bindx_def fetch_def ret_def json_def throw_def\<close>)
  qed
qed

lemma sync_stages:
  "\<exists>r2. bindx (if d = ''bidirectional'' \<or> d = ''upload-only'' then
               bindx (syncUpload e tok ps) (\<lambda>uploadResult.
               ret (add_upload uploadResult initial_result))
             else ret initial_result)
          (\<lambda>r1. bindx (if d = ''bidirectional'' \<or> d = ''download-only'' then
               bindx (syncDownload e tok ps) (\<lambda>downloadResult.
               ret (add_download downloadResult r1))
             else ret r1) k) w =
           k r2 (w\<lparr>calls := calls w @ (if uploads d then [SyncUpload] else [])
                        @ (if downloads d then [SyncDownload] else []),
                   net_log := net_log w @ (if downloads d then [ListFiles tok] else [])\<rparr>)
         \<and> uploaded r2 = 0 \<and> downloaded r2 = 0"
proof -
  let ?stage1 = "if d = ''bidirectional'' \<or> d = ''upload-only'' then
               bindx (syncUpload e tok ps) (\<lambda>uploadResult.
               ret (add_upload uploadResult initial_result))
             else ret initial_result"
  let ?stage2 = "\<lambda>r1. if d = ''bidirectional'' \<or> d = ''download-only'' then
               bindx (syncDownload e tok ps) (\<lambda>downloadResult.
               ret (add_download downloadResult r1))
             else ret r1"
  let ?w1 = "w\<lparr>calls := calls w @ (if uploads d then [SyncUpload] else [])\<rparr>"
  have s1: "\<exists>r1. ?stage1 w = (Inr r1, ?w1) \<and> uploaded r1 = 0 \<and> downloaded r1 = 0"
    by (simp add: uploads_def syncUpload_run bindx_def ret_def add_upload_def
        initial_result_def)
  then obtain r1 where r1: "?stage1 w = (Inr r1, ?w1)" "uploaded r1 = 0" "downloaded r1 = 0"
    by blast
  let ?w2 = "?w1\<lparr>calls := calls ?w1 @ (if downloads d then [SyncDownload] else []),
                   net_log := net_log ?w1 @ (if downloads d then [ListFiles tok] else [])\<rparr>"
  have s2: "\<exists>r2. ?stage2 r1 ?w1 = (Inr r2, ?w2) \<and> uploaded r2 = 0 \<and> downloaded r2 = 0"
  proof (cases "downloads d")
    case False
    then show ?thesis using r1 by (simp add: downloads_def ret_def)
  next
    case True
    obtain dl where "syncDownload e tok ps ?w1 =
          (Inr dl, ?w1\<lparr>calls := calls ?w1 @ [SyncDownload], net_log := net_log ?w1 @ [ListFiles tok]\<rparr>)"
       "count dl = 0"
      using syncDownload_run by blast
    then show ?thesis
      using True r1 unfolding downloads_def
      by (simp add: bindx_def ret_def add_download_def)
  qed
  then obtain r2 where r2: "?stage2 r1 ?w1 = (Inr r2, ?w2)" "uploaded r2 = 0" "downloaded r2 = 0"
    by blast
  have "bindx ?stage1 (\<lambda>r1. bindx (?stage2 r1) k) w = k r2 ?w2"
    using r1(1) r2(1) by (simp add: bindx_def)
  then show ?thesis using r2 by auto
qed

lemma totals_zero:
  "uploaded r = 0 \<Longrightarrow> downloaded r = 0 \<Longrightarrow>
     uploaded (totals r) = 0 \<and> downloaded (totals r) = 0 \<and> synced (totals r) = 0
     \<and> (success (totals r) \<longleftrightarrow> errors (totals r) = 0)"
  by (simp add: totals_def)

lemma sync_dispatch_stages:
  assumes "storage_get e ''config'' w = (Inr stored, w)"
  shows "\<exists>r2. sync_dispatch e tok w =
      bindx (storage_set e ''last_sync_at'' (VDate (now e))) (\<lambda>_.
      bindx (storage_set e ''last_sync_result'' (VResult (totals r2))) (\<lambda>_.
      ret (Json (SyncJson (totals r2)))))
        (w\<lparr>calls := calls w @ (if uploads (effective_direction (stored_config stored)) then [SyncUpload] else [])
                        @ (if downloads (effective_direction (stored_config stored)) then [SyncDownload] else []),
           net_log := net_log w @ (if downloads (effective_direction (stored_config stored)) then [ListFiles tok] else [])\<rparr>)
      \<and> uploaded r2 = 0 \<and> downloaded r2 = 0"
  unfolding sync_dispatch_def Let_def
    bindx_Inr [where m = "storage_get e ''config''" and s = w, OF assms]
  by (rule sync_stages [where k = "\<lambda>result2.
      bindx (storage_set e ''last_sync_at'' (VDate (now e))) (\<lambda>_.
      bindx (storage_set e ''last_sync_result'' (VResult (totals result2))) (\<lambda>_.
      ret (Json (SyncJson (totals result2)))))"])

lemma sync_dispatch_run:
  assumes "host_ok e"
  shows "\<exists>r. sync_dispatch e tok w =
      (Inr (Json (SyncJson r)),
       w\<lparr>calls := calls w @ (if uploads (effective_direction (stored_config (map_of (storage w) ''config''))) then [SyncUpload] else [])
                        @ (if downloads (effective_direction (stored_config (map_of (storage w) ''config''))) then [SyncDownload] else []),
         net_log := net_log w @ (if downloads (effective_direction (stored_config (map_of (storage w) ''config''))) then [ListFiles tok] else []),
         storage := AList.update ''last_sync_result'' (VResult r)
                      (AList.update ''last_sync_at'' (VDate (now e)) (storage w))\<rparr>)"
proof -
  obtain r2 where "sync_dispatch e tok w =
      bindx (storage_set e ''last_sync_at'' (VDate (now e))) (\<lambda>_.
      bindx (storage_set e ''last_sync_result'' (VResult (totals r2))) (\<lambda>_.
      ret (Json (SyncJson (totals r2)))))
        (w\<lparr>calls := calls w @ (if uploads (effective_direction (stored_config (map_of (storage w) ''config''))) then [SyncUpload] else [])
                        @ (if downloads (effective_direction (stored_config (map_of (storage w) ''config''))) then [SyncDownload] else []),
           net_log := net_log w @ (if downloads (effective_direction (stored_config (map_of (storage w) ''config''))) then [ListFiles tok] else [])\<rparr>)"
    using sync_dispatch_stages [OF ok_storage_get [OF assms]] by blast
  then have "sync_dispatch e tok w =
      (Inr (Json (SyncJson (totals r2))),
       w\<lparr>calls := calls w @ (if uploads (effective_direction (stored_config (map_of (storage w) ''config''))) then [SyncUpload] else [])
                        @ (if downloads (effective_direction (stored_config (map_of (storage w) ''config''))) then [SyncDownload] else []),
         net_log := net_log w @ (if downloads (effective_direction (stored_config (map_of (storage w) ''config''))) then [ListFiles tok] else []),
         storage := AList.update ''last_sync_result'' (VResult (totals r2))
                      (AList.update ''last_sync_at'' (VDate (now e)) (storage w))\<rparr>)"
    using assms by (simp add: bindx_def host_ok_ops ret_def)
  then show ?thesis by blast
qed


lemma record_result:
  assumes "bindx (storage_set e ''last_sync_at'' (VDate (now e))) (\<lambda>_.
      bindx (storage_set e ''last_sync_result'' (VResult r)) (\<lambda>_.
      ret (Json (SyncJson r)))) w0 = (Inr resp, w')"
  shows "resp = Json (SyncJson r)"
proof -
  from assms obtain u1 w1 where
    "bindx (storage_set e ''last_sync_result'' (VResult r))
       (\<lambda>_. ret (Json (SyncJson r))) w1 = (Inr resp, w')"
    by (rule bindx_InrE)
  then obtain u2 w2 where "ret (Json (SyncJson r)) w2 = (Inr resp, w')"
    by (rule bindx_InrE)
  then show "resp = Json (SyncJson r)"
    by (simp add: ret_def)
qed

lemma sync_dispatch_counts:
  assumes "sync_dispatch e tok w = (Inr resp, w')"
  shows "\<exists>r. resp = Json (SyncJson r) \<and> uploaded r = 0 \<and> downloaded r = 0 \<and> synced r = 0
            \<and> (success r \<longleftrightarrow> errors r = 0)"
proof (cases "fails e (StorageGet ''config'')")
  case True
  then have "storage_get e ''config'' w = (Inl host_error, w)"
    by (simp add: storage_get_def)
  then have "sync_dispatch e tok w = (Inl host_error, w)"
    unfolding sync_dispatch_def
    by (rule bindx_Inl [where m = "storage_get e ''config''" and s = w])
  with assms have False by simp
  then show ?thesis ..
next
  case False
  then have "storage_get e ''config'' w = (Inr (map_of (storage w) ''config''), w)"
    by (simp add: storage_get_def)
  from sync_dispatch_stages [OF this, of tok]
  obtain r2 where run: "sync_dispatch e tok w =
      bindx (storage_set e ''last_sync_at'' (VDate (now e))) (\<lambda>_.
      bindx (storage_set e ''last_sync_result'' (VResult (totals r2))) (\<lambda>_.
      ret (Json (SyncJson (totals r2)))))
        (w\<lparr>calls := calls w @ (if uploads (effective_direction (stored_config (map_of (storage w) ''config''))) then [SyncUpload] else [])
                        @ (if downloads (effective_direction (stored_config (map_of (storage w) ''config''))) then [SyncDownload] else []),
           net_log := net_log w @ (if downloads (effective_direction (stored_config (map_of (storage w) ''config''))) then [ListFiles tok] else [])\<rparr>)"
    and zero: "uploaded r2 = 0" "downloaded r2 = 0"
    by (elim exE conjE)
  have "resp = Json (SyncJson (totals r2))"
    using assms [unfolded run] by (rule record_result)
  moreover note totals_zero [OF zero]
  ultimately show ?thesis
    by (intro exI [where x = "totals r2"]) simp
qed

lemma sync_body_json:
  assumes "sync_body e w = (Inr resp, w')" and "resp = Json j"
  shows "\<exists>tok w1. sync_dispatch e tok w1 = (Inr resp, w')"
proof -
  from assms(1) obtain isConnected w0 where
    rest: "(if \<not> truthy isConnected then ret (Error ''Not connected to Google Drive'' 401)
     else
       bindx (getValidAccessToken e) (\<lambda>accessToken.
       if \<not> present accessToken then
         ret (Error ''Failed to get access token. Please reconnect.'' 401)
       else sync_dispatch e (render accessToken))) w0 = (Inr resp, w')"
    unfolding sync_body_def by (rule bindx_InrE)
  have c: "truthy isConnected"
    using rest assms(2) by (cases "truthy isConnected") (auto simp: ret_def)
  with rest have "bindx (getValidAccessToken e) (\<lambda>accessToken.
       if \<not> present accessToken then
         ret (Error ''Failed to get access token. Please reconnect.'' 401)
       else sync_dispatch e (render accessToken)) w0 = (Inr resp, w')"
    by simp
  then obtain accessToken w1 where
    rest2: "(if \<not> present accessToken then
         ret (Error ''Failed to get access token. Please reconnect.'' 401)
       else sync_dispatch e (render accessToken)) w1 = (Inr resp, w')"
    by (rule bindx_InrE)
  have "present accessToken"
    using rest2 assms(2) by (cases "present accessToken") (auto simp: ret_def)
  with rest2 have "sync_dispatch e (render accessToken) w1 = (Inr resp, w')" by simp
  then show ?thesis by blast
qed

lemma getValidAccessToken_untouched: "keeps (untouched w0) (getValidAccessToken e)"
proof -
  have get: "keeps (untouched w0) (secrets_get e k)" for k
    by (simp add: keeps_def secrets_get_def)
  have sget: "keeps (untouched w0) (storage_get e k)" for k
    by (simp add: keeps_def storage_get_def)
  have sset: "keeps (untouched w0) (secrets_set e k v)" for k v
    by (simp add: keeps_def secrets_set_def untouched_def)
  have expiry: "keeps (untouched w0) (storage_set e ''token_expires_at'' v)" for v
    by (simp add: keeps_def storage_set_def untouched_def AList.update_conv')
  have refresh: "keeps (untouched w0) (fetch (token_api e) (TokenRefresh a b c))" for a b c
    by (auto simp: keeps_def fetch_def untouched_def split: fetch_result.splits)
  have js: "keeps (untouched w0) (json b)" for b :: "token_json body"
    by (simp add: keeps_def json_def ret_def throw_def split: body.splits)
  have tx: "keeps (untouched w0) (text_of b)" for b :: "token_json body"
    by (simp add: keeps_def text_of_def ret_def throw_def split: body.splits)
  show ?thesis
    unfolding getValidAccessToken_def
    by (intro keeps_bindx keeps_if keeps_case_prod keeps_try_catch keeps_ret get sget sset expiry
        refresh js tx)
qed

lemma sync_reaches_dispatch:
  assumes "host_ok e" and "truthy (map_of (storage w) ''connected'')"
    and "getValidAccessToken e w = (Inr (Some tok), w1)" and "tok \<noteq> []"
  shows "sync_body e w = sync_dispatch e tok w1"
  using assms by (simp add: sync_body_def bindx_def host_ok_ops present_def render_def)

section \<open>The deletions of the disconnect handler\<close>

lemma filter_after_delete:
  "filter (\<lambda>p. fst p \<notin> set ks) (AList.delete k xs) = filter (\<lambda>p. fst p \<notin> set (k # ks)) xs"
  by (induction xs) (auto simp: AList.delete_eq)

lemma delete_each_ok:
  assumes "host_ok e"
  shows "delete_each e ks w = (Inr (), w\<lparr>storage := filter (\<lambda>p. fst p \<notin> set ks) (storage w)\<rparr>)"
proof (induction ks arbitrary: w)
  case Nil
  show ?case by (simp add: ret_def)
next
  case (Cons k ks)
  show ?case
    using assms by (simp add: bindx_def host_ok_ops Cons.IH filter_after_delete del: set_simps)
qed

lemma filtered_absent: "k \<in> S \<Longrightarrow> map_of (filter (\<lambda>p. fst p \<notin> S) xs) k = None"
  by (induction xs) auto

lemma revoke_step:
  "\<exists>w'. (if present tok then
              try_catch
                (bindx (fetch (revoke_api e) (Revoke (render tok))) (\<lambda>_. ret ()))
                (\<lambda>_. ret ())
            else ret ()) w = (Inr (), w')
        \<and> storage w' = storage w \<and> secrets w' = secrets w"
  by (cases "revoke_api e (Revoke (render tok))")
     (simp_all add: try_catch_def bindx_def fetch_def ret_def)

section \<open>Properties of the OAuth state token\<close>

text \<open>
  Claim C1. A state token stored by the connect handler less than ten minutes ago is
  accepted by the callback handler at most once. The connect handler stores the record
  under \<open>oauth_state_<state>\<close>; the first callback that presents the state (with a code
  and no provider error) deletes the record and goes on to the code exchange, and the
  record is still absent when that callback returns; any later callback presenting the
  same state while the record is absent answers 400 "Invalid or expired state token"
  and changes nothing.
\<close>

theorem callback_state_single_use:
  assumes "host_ok e0" and "present (map_of (secrets w0) ''GOOGLE_CLIENT_ID'')"
    and "w1 = snd (connect_handler e0 w0)"
    and "host_ok e1" and "presents e1 (random_state e0)"
    and "now e1 - now e0 < 10 * 60 * 1000"
    and "w2 = snd (callback_handler e1 w1)"
    and "host_ok e2" and "presents e2 (random_state e0)"
  shows "map_of (storage w1) (state_key (random_state e0)) = Some (VState (now e0) (user_id e0))
       \<and> callback_body e1 w1 =
           callback_exchange e1 (render (map_of (req_query e1) ''code''))
             (w1\<lparr>storage := AList.delete (state_key (random_state e0)) (storage w1)\<rparr>)
       \<and> map_of (storage w2) (state_key (random_state e0)) = None
       \<and> callback_handler e2 w2 = (Error ''Invalid or expired state token'' 400, w2)
       \<and> (\<forall>w. map_of (storage w) (state_key (random_state e0)) = None \<longrightarrow>
              callback_handler e2 w = (Error ''Invalid or expired state token'' 400, w))"
proof -
  let ?k = "state_key (random_state e0)"
  have stored: "map_of (storage w1) ?k = Some (VState (now e0) (user_id e0))"
    using assms(1-3) by (simp add: connect_stores_state AList.update_conv')
  have fresh: "callback_body e1 w1 =
      callback_exchange e1 (render (map_of (req_query e1) ''code''))
        (w1\<lparr>storage := AList.delete ?k (storage w1)\<rparr>)"
    using callback_fresh [OF assms(4,5) stored] assms(6) by simp
  have "absent ?k (w1\<lparr>storage := AList.delete ?k (storage w1)\<rparr>)"
    by (simp add: absent_def AList.delete_conv')
  then have "absent ?k (snd (callback_body e1 w1))"
    using callback_exchange_keeps_absent fresh by (simp add: keeps_def)
  moreover have "snd (callback_handler e1 w1) = snd (callback_body e1 w1)"
    by (simp add: callback_handler_def split: prod.splits sum.splits)
  ultimately have gone: "map_of (storage w2) ?k = None"
    using assms(7) by (simp add: absent_def)
  have again: "\<forall>w. map_of (storage w) ?k = None \<longrightarrow>
      callback_handler e2 w = (Error ''Invalid or expired state token'' 400, w)"
    using callback_unknown_state [OF assms(8,9)] by blast
  show ?thesis using stored fresh gone again by blast
qed

theorem callback_state_single_use_witness:
  "host_ok quiet_env
   \<and> present (map_of (secrets configured_world) ''GOOGLE_CLIENT_ID'')
   \<and> host_ok (callback_env 3) \<and> presents (callback_env 3) (random_state quiet_env)
   \<and> now (callback_env 3) - now quiet_env < 10 * 60 * 1000
   \<and> host_ok (callback_env 4) \<and> presents (callback_env 4) (random_state quiet_env)
   \<and> fst (callback_handler (callback_env 4)
        (snd (callback_handler (callback_env 3) (snd (connect_handler quiet_env configured_world)))))
       = Error ''Invalid or expired state token'' 400"
proof -
  have a: "host_ok quiet_env" by (simp add: host_ok_def quiet_env_def)
  have b: "present (map_of (secrets configured_world) ''GOOGLE_CLIENT_ID'')"
    by (simp add: configured_world_def present_def)
  have c: "host_ok (callback_env 3)" "host_ok (callback_env 4)"
    by (simp_all add: host_ok_def callback_env_def quiet_env_def)
  have d: "presents (callback_env 3) (random_state quiet_env)"
    "presents (callback_env 4) (random_state quiet_env)"
    by (simp_all add: presents_def callback_env_def quiet_env_def present_def)
  have t: "now (callback_env 3) - now quiet_env < 10 * 60 * 1000"
    by (simp add: callback_env_def quiet_env_def)
  show ?thesis
    using callback_state_single_use [OF a b refl c(1) d(1) t refl c(2) d(2)] a b c d t
    by simp
qed

text \<open>
  Claim C2. When the stored record of the presented state was created more than ten
  minutes before the current time, the callback handler answers 400 with the expiry
  message "State token expired. Please try again." and has deleted the stale record
  from storage when it returns.
\<close>

theorem callback_rejects_expired_state:
  assumes "host_ok e" and "presents e s"
    and "map_of (storage w) (state_key s) = Some (VState createdAt uid)"
    and "now e - createdAt > 10 * 60 * 1000"
  shows "callback_handler e w =
           (Error ''State token expired. Please try again.'' 400,
            w\<lparr>storage := AList.delete (state_key s) (storage w)\<rparr>)
         \<and> map_of (storage (snd (callback_handler e w))) (state_key s) = None"
  using assms
  by (simp add: callback_handler_def callback_reaches_verification bindx_def host_ok_ops
      state_expired_def ret_def AList.delete_conv')

theorem callback_rejects_expired_state_witness:
  "host_ok (callback_env 11)
   \<and> presents (callback_env 11) (random_state quiet_env)
   \<and> map_of (storage pending_world) (state_key (random_state quiet_env))
       = Some (VState 1700000000000 (Some ''user-1''))
   \<and> now (callback_env 11) - 1700000000000 > 10 * 60 * 1000
   \<and> fst (callback_handler (callback_env 11) pending_world)
       = Error ''State token expired. Please try again.'' 400
   \<and> map_of (storage (snd (callback_handler (callback_env 11) pending_world)))
        (state_key (random_state quiet_env)) = None"
proof -
  have a: "host_ok (callback_env 11)"
    by (simp add: host_ok_def callback_env_def quiet_env_def)
  have b: "presents (callback_env 11) (random_state quiet_env)"
    by (simp add: presents_def callback_env_def quiet_env_def present_def)
  have c: "map_of (storage pending_world) (state_key (random_state quiet_env))
       = Some (VState 1700000000000 (Some ''user-1''))"
    by (simp add: pending_world_def configured_world_def quiet_env_def)
  have d: "now (callback_env 11) - 1700000000000 > 10 * 60 * 1000"
    by (simp add: callback_env_def quiet_env_def)
  show ?thesis
    using callback_rejects_expired_state [OF a b c d] a b c d
    by (simp add: AList.delete_conv')
qed

section \<open>Properties of the exclusion patterns\<close>




section \<open>Properties of the connection flag\<close>

text \<open>
  Claim C3, as the code has it. The status handler resets \<open>connected\<close> to false
  before returning whenever it observes \<open>connected\<close> set together with a stored
  access token whose stored expiry is within 60 seconds of now (or past) and the
  token cannot be refreshed (the refresh fails, or no refresh token or client
  credentials are stored).
\<close>

theorem status_resets_connected:
  assumes "host_ok e" and "truthy (map_of (storage w) ''connected'')"
    and "present (map_of (secrets w) ''access_token'')"
    and "expires_within e 60000 (map_of (storage w) ''token_expires_at'')"
    and "fst (refreshAccessToken e w) \<noteq> Inr True"
  shows "map_of (storage (snd (status_handler e w))) ''connected'' = Some (VBool False)"
proof -
  obtain b w1 where r: "refreshAccessToken e w = (Inr b, w1)"
    using refresh_never_throws [OF assms(1)] by blast
  with assms(5) have "refreshAccessToken e w = (Inr False, w1)" by simp
  from status_failed_refresh [OF assms(1-4) this] show ?thesis
    by (simp add: status_handler_def AList.update_conv')
qed

theorem status_resets_connected_witness:
  "host_ok quiet_env
   \<and> truthy (map_of (storage expiring_world) ''connected'')
   \<and> present (map_of (secrets expiring_world) ''access_token'')
   \<and> expires_within quiet_env 60000 (map_of (storage expiring_world) ''token_expires_at'')
   \<and> fst (refreshAccessToken quiet_env expiring_world) \<noteq> Inr True
   \<and> map_of (storage (snd (status_handler quiet_env expiring_world))) ''connected''
       = Some (VBool False)"
proof -
  have a: "host_ok quiet_env" by (simp add: host_ok_def quiet_env_def)
  have b: "truthy (map_of (storage expiring_world) ''connected'')"
    by (simp add: expiring_world_def)
  have c: "present (map_of (secrets expiring_world) ''access_token'')"
    by (simp add: expiring_world_def all_secrets_def present_def)
  have d: "expires_within quiet_env 60000 (map_of (storage expiring_world) ''token_expires_at'')"
    by (simp add: expiring_world_def expires_within_def quiet_env_def)
  have "refreshAccessToken quiet_env expiring_world =
      (Inr False, expiring_world\<lparr>net_log := net_log expiring_world
         @ [TokenRefresh ''client-id'' ''client-secret'' ''1//refresh'']\<rparr>)"
    by (rule refresh_endpoint_failure [OF a])
       (simp_all add: expiring_world_def all_secrets_def quiet_env_def)
  then have f: "fst (refreshAccessToken quiet_env expiring_world) \<noteq> Inr True" by simp
  show ?thesis
    using status_resets_connected [OF a b c d f] a b c d f by simp
qed

text \<open>
  Claim C3, as stated, fails for the sync handler and for a status check without a
  stored token. With \<open>connected\<close> set, an access token long expired and no refresh
  token, the sync handler answers 401 and leaves the stores as they were, so
  \<open>connected\<close> stays true. With \<open>connected\<close> set and no access token stored, the
  status handler attempts no refresh, reports the connection as live and leaves
  \<open>connected\<close> true.
\<close>

theorem sync_leaves_connected_set:
  "sync_handler quiet_env stale_world
     = (Error ''Failed to get access token. Please reconnect.'' 401, stale_world)
   \<and> map_of (storage stale_world) ''connected'' = Some (VBool True)
   \<and> map_of (secrets stale_world) ''refresh_token'' = None
   \<and> fst (status_handler quiet_env tokenless_world)
       = Json (StatusJson \<lparr>connected = True, userEmail = None, userName = None,
           userPicture = None, connectedAt = None, lastSyncAt = None,
           quotaUsed = None, quotaTotal = None\<rparr>)
   \<and> map_of (storage (snd (status_handler quiet_env tokenless_world))) ''connected''
       = Some (VBool True)"
proof -
  have a: "host_ok quiet_env" by (simp add: host_ok_def quiet_env_def)
  have f: "map_of (secrets stale_world) ''access_token'' = Some ''ya29.old''"
    "map_of (storage stale_world) ''token_expires_at'' = Some (VNum 1699990000000)"
    "map_of (secrets stale_world) ''refresh_token'' = None"
    "now quiet_env = 1700000000000"
    by (simp_all add: stale_world_def quiet_env_def)
  have "getValidAccessToken quiet_env stale_world = (Inr None, stale_world)"
    by (simp add: getValidAccessToken_def bindx_def host_ok_ops [OF a] ret_def f
        present_def valid_beyond_def)
  moreover have "truthy (map_of (storage stale_world) ''connected'')"
    by (simp add: stale_world_def)
  ultimately have s: "sync_handler quiet_env stale_world
     = (Error ''Failed to get access token. Please reconnect.'' 401, stale_world)"
    by (simp add: sync_handler_def sync_body_def bindx_def host_ok_ops [OF a] ret_def present_def)
  have q: "about_api quiet_env (AboutQuota ''undefined'') = Response True (JsonBody None)"
    by (simp add: quiet_env_def)
  have l: "net_log tokenless_world = []" "map_of (storage tokenless_world) ''connected'' = Some (VBool True)"
    "map_of (storage tokenless_world) ''user_email'' = None"
    "map_of (storage tokenless_world) ''user_name'' = None"
    "map_of (storage tokenless_world) ''user_picture'' = None"
    "map_of (storage tokenless_world) ''connected_at'' = None"
    "map_of (storage tokenless_world) ''last_sync_at'' = None"
    "map_of (storage tokenless_world) ''token_expires_at'' = None"
    "map_of (secrets tokenless_world) ''access_token'' = None"
    by (simp_all add: tokenless_world_def configured_world_def)
  have g: "getQuotaInfo quiet_env ''undefined'' tokenless_world =
      (Inr (None, None), tokenless_world\<lparr>net_log := [AboutQuota ''undefined'']\<rparr>)"
    by (simp add: getQuotaInfo_def bindx_def fetch_def q l json_def ret_def)
  have "status_body quiet_env tokenless_world =
      status_report quiet_env None None None None None None tokenless_world"
    by (simp add: status_body_def bindx_def host_ok_ops [OF a] l present_def)
  then have t: "status_handler quiet_env tokenless_world =
      (Json (StatusJson \<lparr>connected = True, userEmail = None, userName = None,
          userPicture = None, connectedAt = None, lastSyncAt = None,
          quotaUsed = None, quotaTotal = None\<rparr>),
       tokenless_world\<lparr>net_log := [AboutQuota ''undefined'']\<rparr>)"
    by (simp add: status_handler_def status_report_def bindx_def try_catch_def g render_def ret_def)
  show ?thesis
    unfolding s t using f l by (simp add: stale_world_def)
qed

text \<open>
  Claim C4. In a status check with \<open>connected\<close> set and the stored token expiring
  within 60 seconds (or expired), a refresh that fails because the token endpoint
  answers with a non-ok response or because the request throws ends with
  \<open>connected\<close> stored as false and the answer \<open>{connected: false}\<close>; the body of
  the handler returns normally, so no exception leaves the refresh.
\<close>

theorem status_refresh_failure:
  assumes "host_ok e" and "truthy (map_of (storage w) ''connected'')"
    and "present (map_of (secrets w) ''access_token'')"
    and "expires_within e 60000 (map_of (storage w) ''token_expires_at'')"
    and "map_of (secrets w) ''refresh_token'' = Some rt" and "rt \<noteq> []"
    and "map_of (secrets w) ''GOOGLE_CLIENT_ID'' = Some cid" and "cid \<noteq> []"
    and "map_of (secrets w) ''GOOGLE_CLIENT_SECRET'' = Some cs" and "cs \<noteq> []"
    and "case token_api e (TokenRefresh cid cs rt) of NetworkError _ \<Rightarrow> True | Response ok _ \<Rightarrow> \<not> ok"
  shows "status_body e w =
           (Inr (Json (StatusJson disconnected_status)),
            w\<lparr>net_log := net_log w @ [TokenRefresh cid cs rt],
              storage := AList.update ''connected'' (VBool False) (storage w)\<rparr>)
       \<and> fst (status_handler e w) = Json (StatusJson disconnected_status)
       \<and> connected disconnected_status = False
       \<and> map_of (storage (snd (status_handler e w))) ''connected'' = Some (VBool False)"
proof -
  have "status_body e w =
           (Inr (Json (StatusJson disconnected_status)),
            w\<lparr>net_log := net_log w @ [TokenRefresh cid cs rt],
              storage := AList.update ''connected'' (VBool False) (storage w)\<rparr>)"
    using status_failed_refresh [OF assms(1-4) refresh_endpoint_failure [OF assms(1,5-11)]]
    by simp
  then show ?thesis
    by (simp add: status_handler_def AList.update_conv' disconnected_status_def)
qed

theorem status_refresh_failure_witness:
  "host_ok offline_env
   \<and> token_api offline_env (TokenRefresh ''client-id'' ''client-secret'' ''1//refresh'')
       = NetworkError ''fetch failed''
   \<and> fst (status_handler offline_env expiring_world) = Json (StatusJson disconnected_status)
   \<and> map_of (storage (snd (status_handler offline_env expiring_world))) ''connected''
       = Some (VBool False)"
proof -
  have a: "host_ok offline_env" by (simp add: host_ok_def offline_env_def quiet_env_def)
  have b: "truthy (map_of (storage expiring_world) ''connected'')"
    by (simp add: expiring_world_def)
  have c: "present (map_of (secrets expiring_world) ''access_token'')"
    by (simp add: expiring_world_def all_secrets_def present_def)
  have d: "expires_within offline_env 60000 (map_of (storage expiring_world) ''token_expires_at'')"
    by (simp add: expiring_world_def expires_within_def offline_env_def quiet_env_def)
  have s: "map_of (secrets expiring_world) ''refresh_token'' = Some ''1//refresh''"
    "map_of (secrets expiring_world) ''GOOGLE_CLIENT_ID'' = Some ''client-id''"
    "map_of (secrets expiring_world) ''GOOGLE_CLIENT_SECRET'' = Some ''client-secret''"
    by (simp_all add: expiring_world_def all_secrets_def)
  have n: "token_api offline_env (TokenRefresh ''client-id'' ''client-secret'' ''1//refresh'')
       = NetworkError ''fetch failed''"
    by (simp add: offline_env_def)
  have ne: "''1//refresh'' \<noteq> []" "''client-id'' \<noteq> []" "''client-secret'' \<noteq> []"
    by simp_all
  have e: "case token_api offline_env (TokenRefresh ''client-id'' ''client-secret'' ''1//refresh'') of
             NetworkError _ \<Rightarrow> True | Response ok _ \<Rightarrow> \<not> ok"
    by (simp add: n)
  show ?thesis
    using status_refresh_failure [OF a b c d s(1) ne(1) s(2) ne(2) s(3) ne(3) e] a n
    by simp
qed

section \<open>Properties of the sync handler\<close>

text \<open>
  Claim C6. In a sync run that reaches the dispatch stage, the upload stage is entered
  exactly when the configured direction is \<open>bidirectional\<close> or \<open>upload-only\<close>,
  and the download stage, with its file-listing request, exactly when the direction is
  \<open>bidirectional\<close> or \<open>download-only\<close>: the stage trace grows by just those
  stages, the only request sent after the token was obtained is the listing of the
  download stage, obtaining the token sends no listing request, and a missing
  direction counts as \<open>bidirectional\<close>.
\<close>

theorem sync_direction_dispatch:
  assumes "host_ok e" and "truthy (map_of (storage w) ''connected'')"
    and "getValidAccessToken e w = (Inr (Some tok), w1)" and "tok \<noteq> []"
    and "d = effective_direction (stored_config (map_of (storage w) ''config''))"
    and "w' = snd (sync_handler e w)"
  shows "calls w' = calls w @ (if uploads d then [SyncUpload] else [])
                            @ (if downloads d then [SyncDownload] else [])
       \<and> net_log w' = net_log w1 @ (if downloads d then [ListFiles tok] else [])
       \<and> (\<forall>t. ListFiles t \<in> set (net_log w1) \<longrightarrow> ListFiles t \<in> set (net_log w))
       \<and> (\<not> present (syncDirection (stored_config (map_of (storage w) ''config'')))
            \<longrightarrow> uploads d \<and> downloads d)"
proof -
  have "untouched w w" by (simp add: untouched_def)
  then have "untouched w (snd (getValidAccessToken e w))"
    using getValidAccessToken_untouched by (simp add: keeps_def)
  then have u: "untouched w w1" using assms(3) by simp
  then have cfg: "map_of (storage w1) ''config'' = map_of (storage w) ''config''"
    and cs: "calls w1 = calls w"
    and nl: "\<forall>t. ListFiles t \<in> set (net_log w1) \<longrightarrow> ListFiles t \<in> set (net_log w)"
    by (simp_all add: untouched_def)
  obtain r where "sync_dispatch e tok w1 =
      (Inr (Json (SyncJson r)),
       w1\<lparr>calls := calls w1 @ (if uploads (effective_direction (stored_config (map_of (storage w1) ''config''))) then [SyncUpload] else [])
                        @ (if downloads (effective_direction (stored_config (map_of (storage w1) ''config''))) then [SyncDownload] else []),
         net_log := net_log w1 @ (if downloads (effective_direction (stored_config (map_of (storage w1) ''config''))) then [ListFiles tok] else []),
         storage := AList.update ''last_sync_result'' (VResult r)
                      (AList.update ''last_sync_at'' (VDate (now e)) (storage w1))\<rparr>)"
    using sync_dispatch_run [OF assms(1)] by blast
  then have fin: "calls w' = calls w1 @ (if uploads d then [SyncUpload] else []) @ (if downloads d then [SyncDownload] else [])"
      "net_log w' = net_log w1 @ (if downloads d then [ListFiles tok] else [])"
    using sync_reaches_dispatch [OF assms(1-4)] assms(5,6) cfg
    by (simp_all add: sync_handler_def)
  have dflt: "\<not> present (syncDirection (stored_config (map_of (storage w) ''config'')))
            \<longrightarrow> uploads d \<and> downloads d"
    using assms(5) by (simp add: effective_direction_def uploads_def downloads_def)
  show ?thesis using fin cs nl dflt by simp
qed

theorem sync_direction_dispatch_witness:
  "host_ok quiet_env
   \<and> getValidAccessToken quiet_env (ready_world ''upload-only'')
       = (Inr (Some ''ya29.old''), ready_world ''upload-only'')
   \<and> calls (snd (sync_handler quiet_env (ready_world ''upload-only''))) = [SyncUpload]
   \<and> net_log (snd (sync_handler quiet_env (ready_world ''upload-only''))) = []
   \<and> calls (snd (sync_handler quiet_env (ready_world ''download-only''))) = [SyncDownload]
   \<and> net_log (snd (sync_handler quiet_env (ready_world ''download-only'')))
       = [ListFiles ''ya29.old'']"
proof -
  have a: "host_ok quiet_env" by (simp add: host_ok_def quiet_env_def)
  have f: "map_of (secrets (ready_world dir)) ''access_token'' = Some ''ya29.old''"
    "map_of (storage (ready_world dir)) ''token_expires_at'' = Some (VNum 1700003600000)"
    "map_of (storage (ready_world dir)) ''connected'' = Some (VBool True)"
    "map_of (storage (ready_world dir)) ''config''
       = Some (VConfig \<lparr>syncDirection = Some dir, excludePatterns = Some [''*.tmp'']\<rparr>)"
    "calls (ready_world dir) = []" "net_log (ready_world dir) = []"
    "now quiet_env = 1700000000000" for dir
    by (simp_all add: ready_world_def all_secrets_def quiet_env_def)
  have g: "getValidAccessToken quiet_env (ready_world dir) = (Inr (Some ''ya29.old''), ready_world dir)"
    for dir
    by (simp add: getValidAccessToken_def bindx_def host_ok_ops [OF a] ret_def f
        present_def valid_beyond_def)
  have c: "truthy (map_of (storage (ready_world dir)) ''connected'')" for dir
    by (simp add: f)
  have t: "''ya29.old'' \<noteq> []" by simp
  have d: "effective_direction (stored_config (map_of (storage (ready_world ''upload-only'')) ''config''))
      = ''upload-only''"
    "effective_direction (stored_config (map_of (storage (ready_world ''download-only'')) ''config''))
      = ''download-only''"
    by (simp_all add: f stored_config_def effective_direction_def present_def render_def)
  show ?thesis
    using sync_direction_dispatch [OF a c g t d(1) [symmetric] refl]
      sync_direction_dispatch [OF a c g t d(2) [symmetric] refl] a g f
    by (simp add: uploads_def downloads_def)
qed

text \<open>
  Claim C8. Whenever the sync handler answers with a JSON result, the uploaded and
  downloaded counts are both 0, so \<open>synced = uploaded + downloaded = 0\<close>, and the
  success flag is true exactly when the error count summed over the stages is zero.
\<close>

theorem sync_counts_zero:
  assumes "fst (sync_handler e w) = Json (SyncJson r)"
  shows "uploaded r = 0 \<and> downloaded r = 0 \<and> synced r = uploaded r + downloaded r \<and> synced r = 0
       \<and> (success r \<longleftrightarrow> errors r = 0)"
proof -
  obtain res w' where b: "sync_body e w = (res, w')" by (cases "sync_body e w")
  with assms have "res = Inr (Json (SyncJson r))"
    by (cases res) (simp_all add: sync_handler_def)
  with b have "sync_body e w = (Inr (Json (SyncJson r)), w')" by simp
  from sync_body_json [OF this refl]
  obtain tok w1 where "sync_dispatch e tok w1 = (Inr (Json (SyncJson r)), w')"
    by blast
  from sync_dispatch_counts [OF this] show ?thesis by auto
qed

theorem sync_counts_zero_witness:
  "fst (sync_handler failing_list_env (ready_world ''bidirectional''))
     = Json (SyncJson \<lparr>success = False, synced = 0, uploaded = 0, downloaded = 0, errors = 1,
                       errorMessages = [''fetch failed'']\<rparr>)
   \<and> \<not> success \<lparr>success = False, synced = 0, uploaded = 0, downloaded = 0, errors = 1,
                  errorMessages = [''fetch failed'']\<rparr>"
proof -
  have a: "host_ok failing_list_env"
    by (simp add: host_ok_def failing_list_env_def quiet_env_def)
  let ?w = "ready_world ''bidirectional''"
  have f: "map_of (secrets ?w) ''access_token'' = Some ''ya29.old''"
    "map_of (storage ?w) ''token_expires_at'' = Some (VNum 1700003600000)"
    "map_of (storage ?w) ''connected'' = Some (VBool True)"
    "map_of (storage ?w) ''config''
       = Some (VConfig \<lparr>syncDirection = Some ''bidirectional'', excludePatterns = Some [''*.tmp'']\<rparr>)"
    "now failing_list_env = 1700000000000"
    "files_api failing_list_env (ListFiles ''ya29.old'') = NetworkError ''fetch failed''"
    by (simp_all add: ready_world_def all_secrets_def failing_list_env_def quiet_env_def)
  have g: "getValidAccessToken failing_list_env ?w = (Inr (Some ''ya29.old''), ?w)"
    by (simp add: getValidAccessToken_def bindx_def host_ok_ops [OF a] ret_def f
        present_def valid_beyond_def)
  have dl: "syncDownload failing_list_env ''ya29.old'' ps w =
      (Inr \<lparr>count = 0, stage_errors = 1, stage_messages = [''fetch failed'']\<rparr>,
       w\<lparr>calls := calls w @ [SyncDownload], net_log := net_log w @ [ListFiles ''ya29.old'']\<rparr>)"
    for ps w
    by (simp add: syncDownload_def try_catch_def bindx_def fetch_def f ret_def exn_message_def)
  have "sync_body failing_list_env ?w = sync_dispatch failing_list_env ''ya29.old'' ?w"
    by (rule sync_reaches_dispatch [OF a _ g]) (simp_all add: f)
  then have run: "fst (sync_handler failing_list_env ?w)
     = Json (SyncJson \<lparr>success = False, synced = 0, uploaded = 0, downloaded = 0, errors = 1,
                       errorMessages = [''fetch failed'']\<rparr>)"
    by (simp add: sync_handler_def sync_dispatch_def Let_def bindx_def host_ok_ops [OF a] f ret_def
        stored_config_def effective_direction_def effective_patterns_def present_def render_def
        syncUpload_run dl add_upload_def add_download_def initial_result_def totals_def)
  show ?thesis
    using sync_counts_zero [OF run] run by simp
qed

text \<open>
  Claim C9, as the code has it. Every sync run that reaches the dispatch stage (the
  connection is marked and an access token was obtained) writes \<open>last_sync_at\<close> and
  \<open>last_sync_result\<close> to storage before returning, whether or not the stages report
  errors.
\<close>

theorem sync_records_completed_pass:
  assumes "host_ok e" and "truthy (map_of (storage w) ''connected'')"
    and "getValidAccessToken e w = (Inr (Some tok), w1)" and "tok \<noteq> []"
  shows "\<exists>r. fst (sync_handler e w) = Json (SyncJson r)
       \<and> map_of (storage (snd (sync_handler e w))) ''last_sync_at'' = Some (VDate (now e))
       \<and> map_of (storage (snd (sync_handler e w))) ''last_sync_result'' = Some (VResult r)"
proof -
  obtain r where "sync_dispatch e tok w1 =
      (Inr (Json (SyncJson r)),
       w1\<lparr>calls := calls w1 @ (if uploads (effective_direction (stored_config (map_of (storage w1) ''config''))) then [SyncUpload] else [])
                        @ (if downloads (effective_direction (stored_config (map_of (storage w1) ''config''))) then [SyncDownload] else []),
         net_log := net_log w1 @ (if downloads (effective_direction (stored_config (map_of (storage w1) ''config''))) then [ListFiles tok] else []),
         storage := AList.update ''last_sync_result'' (VResult r)
                      (AList.update ''last_sync_at'' (VDate (now e)) (storage w1))\<rparr>)"
    using sync_dispatch_run [OF assms(1)] by blast
  then have "fst (sync_handler e w) = Json (SyncJson r)
       \<and> map_of (storage (snd (sync_handler e w))) ''last_sync_at'' = Some (VDate (now e))
       \<and> map_of (storage (snd (sync_handler e w))) ''last_sync_result'' = Some (VResult r)"
    using sync_reaches_dispatch [OF assms]
    by (simp add: sync_handler_def AList.update_conv')
  then show ?thesis by (rule exI)
qed

theorem sync_records_completed_pass_witness:
  "host_ok failing_list_env
   \<and> getValidAccessToken failing_list_env (ready_world ''bidirectional'')
       = (Inr (Some ''ya29.old''), ready_world ''bidirectional'')
   \<and> fst (sync_handler failing_list_env (ready_world ''bidirectional''))
       = Json (SyncJson \<lparr>success = False, synced = 0, uploaded = 0, downloaded = 0, errors = 1,
                         errorMessages = [''fetch failed'']\<rparr>)
   \<and> map_of (storage (snd (sync_handler failing_list_env (ready_world ''bidirectional''))))
        ''last_sync_at'' = Some (VDate 1700000000000)
   \<and> map_of (storage (snd (sync_handler failing_list_env (ready_world ''bidirectional''))))
        ''last_sync_result''
       = Some (VResult \<lparr>success = False, synced = 0, uploaded = 0, downloaded = 0, errors = 1,
                         errorMessages = [''fetch failed'']\<rparr>)"
proof -
  have a: "host_ok failing_list_env"
    by (simp add: host_ok_def failing_list_env_def quiet_env_def)
  let ?w = "ready_world ''bidirectional''"
  have f: "map_of (secrets ?w) ''access_token'' = Some ''ya29.old''"
    "map_of (storage ?w) ''token_expires_at'' = Some (VNum 1700003600000)"
    "map_of (storage ?w) ''connected'' = Some (VBool True)"
    "map_of (storage ?w) ''config''
       = Some (VConfig \<lparr>syncDirection = Some ''bidirectional'', excludePatterns = Some [''*.tmp'']\<rparr>)"
    "now failing_list_env = 1700000000000"
    "files_api failing_list_env (ListFiles ''ya29.old'') = NetworkError ''fetch failed''"
    by (simp_all add: ready_world_def all_secrets_def failing_list_env_def quiet_env_def)
  have g: "getValidAccessToken failing_list_env ?w = (Inr (Some ''ya29.old''), ?w)"
    by (simp add: getValidAccessToken_def bindx_def host_ok_ops [OF a] ret_def f
        present_def valid_beyond_def)
  have c: "truthy (map_of (storage ?w) ''connected'')" by (simp add: f)
  have t: "''ya29.old'' \<noteq> []" by simp
  have dl: "syncDownload failing_list_env ''ya29.old'' ps w =
      (Inr \<lparr>count = 0, stage_errors = 1, stage_messages = [''fetch failed'']\<rparr>,
       w\<lparr>calls := calls w @ [SyncDownload], net_log := net_log w @ [ListFiles ''ya29.old'']\<rparr>)"
    for ps w
    by (simp add: syncDownload_def try_catch_def bindx_def fetch_def f ret_def exn_message_def)
  have "sync_body failing_list_env ?w = sync_dispatch failing_list_env ''ya29.old'' ?w"
    by (rule sync_reaches_dispatch [OF a c g t])
  then have run: "fst (sync_handler failing_list_env ?w)
     = Json (SyncJson \<lparr>success = False, synced = 0, uploaded = 0, downloaded = 0, errors = 1,
                       errorMessages = [''fetch failed'']\<rparr>)"
    by (simp add: sync_handler_def sync_dispatch_def Let_def bindx_def host_ok_ops [OF a] f ret_def
        stored_config_def effective_direction_def effective_patterns_def present_def render_def
        syncUpload_run dl add_upload_def add_download_def initial_result_def totals_def)
  show ?thesis
    using sync_records_completed_pass [OF a c g t] a g f run by auto
qed

text \<open>
  Claim C9, as stated, fails. A run that finds the connection unmarked answers 401, a run
  that cannot obtain an access token answers 401, and a run in which the host throws
  answers 500; each leaves the stores as they were, with neither \<open>last_sync_at\<close> nor
  \<open>last_sync_result\<close> written.
\<close>

theorem sync_early_exit_records_nothing:
  "sync_handler quiet_env configured_world
     = (Error ''Not connected to Google Drive'' 401, configured_world)
   \<and> map_of (storage configured_world) ''last_sync_at'' = None
   \<and> map_of (storage configured_world) ''last_sync_result'' = None
   \<and> sync_handler quiet_env stale_world
     = (Error ''Failed to get access token. Please reconnect.'' 401, stale_world)
   \<and> map_of (storage stale_world) ''last_sync_at'' = None
   \<and> map_of (storage stale_world) ''last_sync_result'' = None
   \<and> sync_handler broken_host_env stale_world
     = (Error ''Sync failed unexpectedly. Please try again.'' 500, stale_world)"
proof -
  have a: "host_ok quiet_env" by (simp add: host_ok_def quiet_env_def)
  have n: "map_of (storage configured_world) ''connected'' = None"
    "map_of (storage configured_world) ''last_sync_at'' = None"
    "map_of (storage configured_world) ''last_sync_result'' = None"
    by (simp_all add: configured_world_def)
  have one: "sync_handler quiet_env configured_world
     = (Error ''Not connected to Google Drive'' 401, configured_world)"
    by (simp add: sync_handler_def sync_body_def bindx_def host_ok_ops [OF a] ret_def n)
  have f: "map_of (secrets stale_world) ''access_token'' = Some ''ya29.old''"
    "map_of (storage stale_world) ''token_expires_at'' = Some (VNum 1699990000000)"
    "map_of (secrets stale_world) ''refresh_token'' = None"
    "map_of (storage stale_world) ''connected'' = Some (VBool True)"
    "map_of (storage stale_world) ''last_sync_at'' = None"
    "map_of (storage stale_world) ''last_sync_result'' = None"
    "now quiet_env = 1700000000000"
    by (simp_all add: stale_world_def quiet_env_def)
  have "getValidAccessToken quiet_env stale_world = (Inr None, stale_world)"
    by (simp add: getValidAccessToken_def bindx_def host_ok_ops [OF a] ret_def f
        present_def valid_beyond_def)
  then have two: "sync_handler quiet_env stale_world
     = (Error ''Failed to get access token. Please reconnect.'' 401, stale_world)"
    by (simp add: sync_handler_def sync_body_def bindx_def host_ok_ops [OF a] ret_def f present_def)
  have "fails broken_host_env (StorageGet ''connected'')"
    by (simp add: broken_host_env_def)
  then have "storage_get broken_host_env ''connected'' stale_world = (Inl host_error, stale_world)"
    by (simp add: storage_get_def)
  then have "sync_body broken_host_env stale_world = (Inl host_error, stale_world)"
    unfolding sync_body_def
    by (rule bindx_Inl [where m = "storage_get broken_host_env ''connected''" and s = stale_world])
  then have three: "sync_handler broken_host_env stale_world
     = (Error ''Sync failed unexpectedly. Please try again.'' 500, stale_world)"
    by (simp add: sync_handler_def)
  show ?thesis using one two three n f by simp
qed


section \<open>Properties of the disconnect handler\<close>

text \<open>
  Claim C7. Every disconnect run, whatever the revocation request does (also when it
  fails or throws), deletes both secret entries \<open>access_token\<close> and
  \<open>refresh_token\<close>, deletes each of the fixed storage keys, and deletes every storage
  key that starts with \<open>oauth_state_\<close>; it answers with the success message.
\<close>

theorem disconnect_clears_local_state:
  assumes "host_ok e" and "w' = snd (disconnect_handler e w)"
  shows "fst (disconnect_handler e w)
           = Json (DisconnectJson True ''Successfully disconnected from Google Drive'')
       \<and> map_of (secrets w') ''access_token'' = None
       \<and> map_of (secrets w') ''refresh_token'' = None
       \<and> (\<forall>k \<in> set keysToDelete. map_of (storage w') k = None)
       \<and> (\<forall>k. prefix ''oauth_state_'' k \<longrightarrow> map_of (storage w') k = None)"
proof -
  let ?revoke = "if present (map_of (secrets w) ''access_token'') then
              try_catch
                (bindx (fetch (revoke_api e) (Revoke (render (map_of (secrets w) ''access_token'')))) (\<lambda>_. ret ()))
                (\<lambda>_. ret ())
            else ret ()"
  obtain w1 where r: "?revoke w = (Inr (), w1)" and st: "storage w1 = storage w"
    and se: "secrets w1 = secrets w"
    using revoke_step by blast
  let ?s2 = "filter (\<lambda>p. fst p \<notin> set keysToDelete) (storage w1)"
  let ?keys = "filter (prefix ''oauth_state_'') (map fst ?s2)"
  let ?fin = "w1\<lparr>secrets := AList.delete ''refresh_token'' (AList.delete ''access_token'' (secrets w1)),
                 storage := filter (\<lambda>p. fst p \<notin> set ?keys) ?s2\<rparr>"
  have body: "disconnect_body e w =
      (Inr (Json (DisconnectJson True ''Successfully disconnected from Google Drive'')), ?fin)"
    using assms(1) r
    by (simp add: disconnect_body_def bindx_def host_ok_ops delete_each_ok ret_def)
  then have h: "disconnect_handler e w =
      (Json (DisconnectJson True ''Successfully disconnected from Google Drive''), ?fin)"
    by (simp add: disconnect_handler_def)
  then have w': "w' = ?fin" using assms(2) by simp
  have a: "map_of (secrets w') ''access_token'' = None"
    unfolding w' by (simp add: AList.delete_conv')
  have b: "map_of (secrets w') ''refresh_token'' = None"
    unfolding w' by (simp add: AList.delete_conv')
  have stw: "storage w' = filter (\<lambda>p. fst p \<notin> set ?keys) ?s2"
    unfolding w' by simp
  have c: "map_of (storage w') k = None" if "k \<in> set keysToDelete" for k
  proof -
    have "k \<notin> fst ` set ?s2" using that by auto
    then have "k \<notin> fst ` set (filter (\<lambda>p. fst p \<notin> set ?keys) ?s2)" by auto
    then show ?thesis unfolding stw by (simp only: map_of_eq_None_iff not_False_eq_True)
  qed
  have d: "map_of (storage w') k = None" if "prefix ''oauth_state_'' k" for k
  proof (cases "k \<in> fst ` set ?s2")
    case True
    then have "k \<in> set ?keys" using that by auto
    then show ?thesis unfolding stw by (rule filtered_absent)
  next
    case False
    then have "k \<notin> fst ` set (filter (\<lambda>p. fst p \<notin> set ?keys) ?s2)" by auto
    then show ?thesis unfolding stw by (simp only: map_of_eq_None_iff not_False_eq_True)
  qed
  show ?thesis using h a b c d by simp
qed

theorem disconnect_clears_local_state_witness:
  "host_ok quiet_env
   \<and> revoke_api quiet_env (Revoke ''ya29.old'') = NetworkError ''connection reset''
   \<and> map_of (secrets (snd (disconnect_handler quiet_env linked_world))) ''access_token'' = None
   \<and> map_of (secrets (snd (disconnect_handler quiet_env linked_world))) ''refresh_token'' = None
   \<and> map_of (storage (snd (disconnect_handler quiet_env linked_world))) ''connected'' = None
   \<and> map_of (storage (snd (disconnect_handler quiet_env linked_world)))
        (state_key ''00112233445566778899aabbccddeeff00112233445566778899aabbccddeeff'') = None"
proof -
  have a: "host_ok quiet_env" by (simp add: host_ok_def quiet_env_def)
  have r: "revoke_api quiet_env (Revoke ''ya29.old'') = NetworkError ''connection reset''"
    by (simp add: quiet_env_def)
  have k: "''connected'' \<in> set keysToDelete" by (simp add: keysToDelete_def)
  have p: "prefix ''oauth_state_''
      (state_key ''00112233445566778899aabbccddeeff00112233445566778899aabbccddeeff'')"
    by (simp add: state_key_def)
  show ?thesis
    using disconnect_clears_local_state [OF a refl, of linked_world] a r k p by blast
qed

section \<open>The token of the quota request\<close>

text \<open>
  Claim C10. Every quota request the status handler sends, on any host, carries the
  access token it read from the secret store before the refresh. In particular, when
  the refresh succeeds and stores a new access token, the requests of the run are the
  refresh followed by the quota request with the old token, while the secret store
  already holds the new one.
\<close>

theorem status_quota_uses_earlier_token:
  "(\<forall>t. AboutQuota t \<in> set (net_log (snd (status_handler e w)))
        \<longrightarrow> AboutQuota t \<in> set (net_log w) \<or> t = render (map_of (secrets w) ''access_token''))
   \<and> (host_ok e
       \<and> truthy (map_of (storage w) ''connected'')
       \<and> map_of (secrets w) ''access_token'' = Some old \<and> old \<noteq> []
       \<and> expires_within e 60000 (map_of (storage w) ''token_expires_at'')
       \<and> map_of (secrets w) ''refresh_token'' = Some rt \<and> rt \<noteq> []
       \<and> map_of (secrets w) ''GOOGLE_CLIENT_ID'' = Some cid \<and> cid \<noteq> []
       \<and> map_of (secrets w) ''GOOGLE_CLIENT_SECRET'' = Some cs \<and> cs \<noteq> []
       \<and> token_api e (TokenRefresh cid cs rt) = Response True (JsonBody d)
       \<longrightarrow> net_log (snd (status_handler e w))
             = net_log w @ [TokenRefresh cid cs rt, AboutQuota old]
         \<and> map_of (secrets (snd (status_handler e w))) ''access_token'' = Some (access_token d))"
  using status_quota_old_token [of w e] status_quota_after_refresh [of e w old rt cid cs d]
  unfolding quota_only_with_def by blast

theorem status_quota_uses_earlier_token_witness:
  "host_ok refreshing_env
   \<and> map_of (secrets expiring_world) ''access_token'' = Some ''ya29.old''
   \<and> net_log (snd (status_handler refreshing_env expiring_world))
       = [TokenRefresh ''client-id'' ''client-secret'' ''1//refresh'', AboutQuota ''ya29.old'']
   \<and> map_of (secrets (snd (status_handler refreshing_env expiring_world))) ''access_token''
       = Some ''ya29.new''"
proof -
  have a: "host_ok refreshing_env"
    by (simp add: host_ok_def refreshing_env_def quiet_env_def)
  have f: "truthy (map_of (storage expiring_world) ''connected'')"
    "map_of (secrets expiring_world) ''access_token'' = Some ''ya29.old''"
    "expires_within refreshing_env 60000 (map_of (storage expiring_world) ''token_expires_at'')"
    "map_of (secrets expiring_world) ''refresh_token'' = Some ''1//refresh''"
    "map_of (secrets expiring_world) ''GOOGLE_CLIENT_ID'' = Some ''client-id''"
    "map_of (secrets expiring_world) ''GOOGLE_CLIENT_SECRET'' = Some ''client-secret''"
    "token_api refreshing_env (TokenRefresh ''client-id'' ''client-secret'' ''1//refresh'')
       = Response True (JsonBody \<lparr>access_token = ''ya29.new'', refresh_token = None, expires_in = 3599\<rparr>)"
    "net_log expiring_world = []"
    by (simp_all add: expiring_world_def all_secrets_def refreshing_env_def quiet_env_def
        expires_within_def)
  show ?thesis
    using status_quota_uses_earlier_token [of refreshing_env expiring_world "''ya29.old''"
        "''1//refresh''" "''client-id''" "''client-secret''"
        "\<lparr>access_token = ''ya29.new'', refresh_token = None, expires_in = 3599\<rparr>"] a f
    by simp
qed

end
